theory Spec2Isabelle
  imports Main "HOL-Library.Word"
begin

unbundle bit_operations_syntax

section \<open>pesign.c: the command-line driver\<close>

text \<open>
  The development follows \<^verbatim>\<open>src/pesign.c\<close>: the action bit mask, the helpers that open
  and close the files of one run, \<^verbatim>\<open>check_inputs\<close>, \<^verbatim>\<open>print_digest\<close> and \<^verbatim>\<open>main\<close>
  with its action switch. Functions that \<^verbatim>\<open>pesign.c\<close> calls but does not define
  (\<^verbatim>\<open>find_certificate\<close>, \<^verbatim>\<open>generate_digest\<close>, \<^verbatim>\<open>parse_signatures\<close>, ...) are
  represented by an environment record: where \<^verbatim>\<open>main\<close> inspects their result the
  environment supplies it, and every call is appended to a trace in program order.
\<close>

subsection \<open>Action flags\<close>

definition NO_FLAGS :: int where "NO_FLAGS = 0x00"
definition GENERATE_DIGEST :: int where "GENERATE_DIGEST = 0x01"
definition GENERATE_SIGNATURE :: int where "GENERATE_SIGNATURE = 0x02"
definition IMPORT_RAW_SIGNATURE :: int where "IMPORT_RAW_SIGNATURE = 0x04"
definition IMPORT_SIGNATURE :: int where "IMPORT_SIGNATURE = 0x08"
definition IMPORT_SATTRS :: int where "IMPORT_SATTRS = 0x10"
definition EXPORT_SATTRS :: int where "EXPORT_SATTRS = 0x20"
definition EXPORT_SIGNATURE :: int where "EXPORT_SIGNATURE = 0x40"
definition REMOVE_SIGNATURE :: int where "REMOVE_SIGNATURE = 0x80"
definition LIST_SIGNATURES :: int where "LIST_SIGNATURES = 0x100"
definition PRINT_DIGEST :: int where "PRINT_DIGEST = 0x200"
definition EXPORT_PUBKEY :: int where "EXPORT_PUBKEY = 0x400"
definition EXPORT_CERT :: int where "EXPORT_CERT = 0x800"
definition DAEMONIZE :: int where "DAEMONIZE = 0x1000"
definition FLAG_LIST_END :: int where "FLAG_LIST_END = 0x2000"

text \<open>The table \<^verbatim>\<open>flag_names[]\<close>, in the order of the source, with its end marker
  (whose name is \<^verbatim>\<open>NULL\<close>).\<close>

definition flag_names :: "(int \<times> string option) list" where
  "flag_names =
    [(DAEMONIZE, Some ''daemonize''),
     (GENERATE_DIGEST, Some ''hash''),
     (GENERATE_SIGNATURE, Some ''sign''),
     (IMPORT_RAW_SIGNATURE, Some ''import-raw-sig''),
     (IMPORT_SIGNATURE, Some ''import-sig''),
     (IMPORT_SATTRS, Some ''import-sattrs''),
     (EXPORT_SATTRS, Some ''export-sattrs''),
     (EXPORT_SIGNATURE, Some ''export-sig''),
     (EXPORT_PUBKEY, Some ''export-pubkey''),
     (EXPORT_CERT, Some ''export-cert''),
     (REMOVE_SIGNATURE, Some ''remove''),
     (LIST_SIGNATURES, Some ''list''),
     (FLAG_LIST_END, None)]"

text \<open>\<^verbatim>\<open>print_flag_name\<close>: walk the table up to the end marker and print the name of
  every entry whose flag equals the argument, followed by a blank. The result is the text
  written to the stream.\<close>

fun print_flag_name_loop :: "(int \<times> string option) list \<Rightarrow> int \<Rightarrow> string" where
  "print_flag_name_loop [] flag = []"
| "print_flag_name_loop ((fl, nm) # rest) flag =
     (if fl = FLAG_LIST_END then []
      else (if fl = flag
            then (case nm of Some n \<Rightarrow> n @ '' '' | None \<Rightarrow> ''(null) '')
            else [])
           @ print_flag_name_loop rest flag)"

definition print_flag_name :: "int \<Rightarrow> string" where
  "print_flag_name flag = print_flag_name_loop flag_names flag"

subsection \<open>Formatted output\<close>

definition hex_digit :: "nat \<Rightarrow> char" where
  "hex_digit n = ''0123456789abcdef'' ! (n mod 16)"

text \<open>\<^verbatim>\<open>printf("%02x", (unsigned char) c)\<close>: a value below 256 is always two digits.\<close>

definition printf_02x :: "8 word \<Rightarrow> string" where
  "printf_02x b = [hex_digit (unat b div 16), hex_digit (unat b mod 16)]"

text \<open>\<^verbatim>\<open>"%08x"\<close> of an \<^verbatim>\<open>int\<close>: the value is read as unsigned 32-bit, which is at
  most eight digits, so the minimum width 8 gives exactly eight.\<close>

definition printf_08x :: "int \<Rightarrow> string" where
  "printf_08x a =
     map (\<lambda>k. hex_digit (nat (a mod 2 ^ 32) div 16 ^ k)) [7, 6, 5, 4, 3, 2, 1, 0]"

fun dec_nat :: "nat \<Rightarrow> string" where
  "dec_nat n =
     (if n < 10 then [hex_digit n] else dec_nat (n div 10) @ [hex_digit (n mod 10)])"

text \<open>\<^verbatim>\<open>"%d"\<close>.\<close>

definition printf_d :: "int \<Rightarrow> string" where
  "printf_d i = (if i < 0 then ''-'' @ dec_nat (nat (- i)) else dec_nat (nat i))"

definition nl :: string where
  "nl = [CHR 0x0A]"

definition dq :: string where
  "dq = [CHR 0x22]"

subsection \<open>Contexts, the environment and the machine state\<close>

type_synonym bytes = "8 word list"

text \<open>The fields of \<^verbatim>\<open>cms_context\<close> that \<^verbatim>\<open>pesign.c\<close> reads or writes.
  \<^verbatim>\<open>selected_digest\<close> is kept as the digest name that \<^verbatim>\<open>set_digest_parameters\<close>
  accepted, and \<^verbatim>\<open>pe_digest\<close> is \<^verbatim>\<open>digests[selected_digest].pe_digest\<close>, \<open>None\<close>
  while that pointer is \<^verbatim>\<open>NULL\<close>.\<close>

record cms_context =
  num_signatures :: int
  tokenname :: "string option"
  certname :: "string option"
  selected_digest :: "string option"
  pe_digest :: "bytes option"

text \<open>The fields of \<^verbatim>\<open>pesign_context\<close> used in \<^verbatim>\<open>pesign.c\<close>. A path is \<open>None\<close> when the
  pointer is \<^verbatim>\<open>NULL\<close>. \<^verbatim>\<open>inpe\<close> is the mapping of the input image: the file
  mapped and the length mapped; \<^verbatim>\<open>outpe\<close> the
  path whose file the output handle maps. \<^verbatim>\<open>cms_ctx\<close> is carried by value:
  \<^verbatim>\<open>pesign_context_new\<close> allocates it and \<^verbatim>\<open>main\<close> dereferences it without a check.
  File descriptors and the file mode are not represented.\<close>

record pesign_context =
  infile :: "string option"
  outfile :: "string option"
  insig :: "string option"
  outsig :: "string option"
  rawsig :: "string option"
  insattrs :: "string option"
  outsattrs :: "string option"
  outkey :: "string option"
  outcert :: "string option"
  force :: int
  sign :: int
  hash :: int
  ascii :: int
  verbose :: int
  signum :: int
  inpe :: "(nat \<times> nat) option"
  outpe :: "string option"
  cms_ctx :: cms_context

text \<open>The local variables of \<^verbatim>\<open>main\<close> that the option table fills.\<close>

record options =
  opt_list :: int
  opt_remove :: int
  opt_daemon :: int
  opt_fork :: int
  opt_padding :: int
  opt_digest_name :: string
  opt_tokenname :: "string option"
  opt_certname :: "string option"
  opt_certdir :: string
  opt_signum :: "string option"

datatype pe_handle = Inpe | Outpe

text \<open>What one call of \<^verbatim>\<open>poptGetNextOpt\<close> does: it returns a value, or, for the
  \<^verbatim>\<open>--help\<close> and \<^verbatim>\<open>--usage\<close> options that \<^verbatim>\<open>POPT_AUTOHELP\<close> adds to the table, it
  prints the help text and ends the process with status 0.\<close>

datatype popt_return = Returns int | Prints_help

text \<open>What a run does that is visible outside \<^verbatim>\<open>pesign.c\<close>: the \<^verbatim>\<open>open\<close> calls and the
  calls of functions defined elsewhere, with the arguments that matter.\<close>

datatype event =
    Open_rdonly string
  | Open_creat_trunc string
  | Write_raw string
  | Nss_init string
  | Nss_nodb_init
  | Find_certificate int
  | Import_raw_signature
  | Generate_digest pe_handle int
  | Calculate_signature_space
  | Get_sigspace_extend_amount
  | Allocate_signature_space int
  | Check_signature_space
  | Generate_signature "bytes option"
  | Parse_signature
  | Insert_signature int
  | Select_signature int
  | Export_signature int
  | Remove_signature int
  | Generate_sattr_blob
  | Export_pubkey
  | Export_cert
  | List_signatures
  | Pe_clearcert
  | Finalize_signatures
  | Pe_update
  | Daemonize int

text \<open>Results of the functions that are defined outside \<^verbatim>\<open>pesign.c\<close> and of the
  operating system. \<open>env_inode\<close> is the file a path names: two path strings may name
  one file. \<open>env_helper_effect\<close> is what a helper that receives the output handle
  does to the bytes of the output file.\<close>

record env =
  env_pesign_context_new :: int
  env_popt_config_rc :: int
  env_popt_config_enoent :: bool
  env_popt_next_opts :: "popt_return list"
  env_popt_help :: string
  env_popt_peek_arg :: "string option"
  env_strtol :: "string \<Rightarrow> int \<times> int"
  env_nss_init :: "string \<Rightarrow> bool"
  env_asprintf :: int
  env_glob :: int
  env_nss_nodb_init :: bool
  env_register_oids :: bool
  env_set_digest_parameters :: "string \<Rightarrow> int"
  env_arena_strdup :: "string \<Rightarrow> string option"
  env_find_certificate :: "string option \<Rightarrow> int \<Rightarrow> int"
  env_inode :: "string \<Rightarrow> nat"
  env_may_open :: "string \<Rightarrow> bool"
  env_may_create :: "string \<Rightarrow> bool"
  env_pe_begin :: "bytes \<Rightarrow> bool"
  env_parse_signatures :: "bytes \<Rightarrow> int \<times> int"
  env_generate_digest :: "string option \<Rightarrow> bytes \<Rightarrow> int \<Rightarrow> bytes option"
  env_calculate_signature_space :: "bytes \<Rightarrow> int"
  env_get_sigspace_extend_amount :: "bytes \<Rightarrow> int"
  env_helper_effect :: "event \<Rightarrow> bytes \<Rightarrow> bytes"
  env_daemonize :: int
  env_nss_shutdown :: bool
  env_errtext :: string

datatype status = Running | Exited int | Faulted

text \<open>The state of one run: the context, the locals \<^verbatim>\<open>rc\<close> and \<^verbatim>\<open>sigspace\<close> of \<^verbatim>\<open>main\<close>, the files on
  disk by path, both output streams, the trace and whether the process still runs.\<close>

record machine =
  ctxp :: pesign_context
  rc :: int
  sigspace :: int
  files :: "nat \<Rightarrow> bytes option"
  stdout_text :: string
  stderr_text :: string
  trace :: "event list"
  status :: status

type_synonym step = "machine \<Rightarrow> machine"

text \<open>Statements in sequence: the next one runs only while the process has not ended.\<close>

fun steps :: "step list \<Rightarrow> step" where
  "steps [] s = s"
| "steps (f # fs) s = (let t = f s in if status t = Running then steps fs t else t)"

text \<open>The rest of a sequence, as seen from the state its first statement left.\<close>

definition continue :: "step list \<Rightarrow> step" where
  "continue fs t = (if status t = Running then steps fs t else t)"

definition exit_with :: "int \<Rightarrow> step" where
  "exit_with c s = s\<lparr>status := Exited c\<rparr>"

definition fprintf_stderr :: "string \<Rightarrow> step" where
  "fprintf_stderr m s = s\<lparr>stderr_text := stderr_text s @ m\<rparr>"

definition printf_stdout :: "string \<Rightarrow> step" where
  "printf_stdout m s = s\<lparr>stdout_text := stdout_text s @ m\<rparr>"

definition die :: "string \<Rightarrow> step" where
  "die m = steps [fprintf_stderr m, exit_with 1]"

definition call :: "event \<Rightarrow> step" where
  "call ev s = s\<lparr>trace := trace s @ [ev]\<rparr>"

definition upd_ctx :: "(pesign_context \<Rightarrow> pesign_context) \<Rightarrow> step" where
  "upd_ctx f s = s\<lparr>ctxp := f (ctxp s)\<rparr>"

definition upd_cms :: "(cms_context \<Rightarrow> cms_context) \<Rightarrow> step" where
  "upd_cms f s = s\<lparr>ctxp := (ctxp s)\<lparr>cms_ctx := f (cms_ctx (ctxp s))\<rparr>\<rparr>"

text \<open>A helper that is handed a file of the run: the call is traced and the bytes of that
  file change as the environment says. \<open>call_out\<close> is the case of \<^verbatim>\<open>ctx->outpe\<close>.\<close>

definition call_on :: "env \<Rightarrow> event \<Rightarrow> string option \<Rightarrow> step" where
  "call_on e ev path s =
     (let t = call ev s in
      case path of
        None \<Rightarrow> t
      | Some p \<Rightarrow> (case files s (env_inode e p) of
                    None \<Rightarrow> t
                  | Some b \<Rightarrow>
                      t\<lparr>files := (files s)(env_inode e p \<mapsto> env_helper_effect e ev b)\<rparr>))"

definition call_out :: "env \<Rightarrow> event \<Rightarrow> step" where
  "call_out e ev s = call_on e ev (outpe (ctxp s)) s"

text \<open>What is read through the mapping of the input image: the bytes the mapped file holds
  now, up to the mapped length.\<close>

definition mapped_bytes :: "machine \<Rightarrow> bytes option" where
  "mapped_bytes s =
     (case inpe (ctxp s) of
        None \<Rightarrow> None
      | Some (f, n) \<Rightarrow> (case files s f of None \<Rightarrow> None | Some b \<Rightarrow> Some (take n b)))"

text \<open>The bytes behind a handle, \<open>None\<close> for a \<^verbatim>\<open>NULL\<close> handle.\<close>

definition image_of :: "env \<Rightarrow> machine \<Rightarrow> pe_handle \<Rightarrow> bytes option" where
  "image_of e s h =
     (case h of
        Inpe \<Rightarrow> mapped_bytes s
      | Outpe \<Rightarrow> (case outpe (ctxp s) of None \<Rightarrow> None | Some p \<Rightarrow> files s (env_inode e p)))"

subsection \<open>Opening and closing the files of a run\<close>

text \<open>\<^verbatim>\<open>open(path, O_RDONLY|O_CLOEXEC)\<close> succeeds when the file exists and the system
  lets it be read.\<close>

definition open_rdonly_ok :: "env \<Rightarrow> machine \<Rightarrow> string \<Rightarrow> bool" where
  "open_rdonly_ok e s p = (files s (env_inode e p) \<noteq> None \<and> env_may_open e p)"

text \<open>\<^verbatim>\<open>open(path, O_RDWR|O_CREAT|O_TRUNC|O_CLOEXEC, mode)\<close>: where the system allows it the
  file exists afterwards and is empty.\<close>

definition open_creat_trunc :: "env \<Rightarrow> string \<Rightarrow> step" where
  "open_creat_trunc e p s =
     (let t = call (Open_creat_trunc p) s in
      if env_may_create e p then t\<lparr>files := (files s)(env_inode e p \<mapsto> [])\<rparr> else t)"

definition open_input :: "env \<Rightarrow> step" where
  "open_input e s =
     (case infile (ctxp s) of
        None \<Rightarrow> die (''pesign: No input file specified.'' @ nl) s
      | Some p \<Rightarrow>
          (let t = call (Open_rdonly p) s in
           case (if open_rdonly_ok e s p then files s (env_inode e p) else None) of
             None \<Rightarrow> die (''pesign: Error opening input: '' @ env_errtext e @ nl) t
           | Some raw \<Rightarrow>
               if \<not> env_pe_begin e raw
               then die (''pesign: could not load input file: '' @ env_errtext e @ nl) t
               else
                 (let u = upd_ctx (\<lambda>c. c\<lparr>inpe := Some (env_inode e p, length raw)\<rparr>) t;
                      v = upd_cms (\<lambda>m. m\<lparr>num_signatures := snd (env_parse_signatures e raw)\<rparr>) u
                  in if fst (env_parse_signatures e raw) < 0
                     then die (''pesign: could not parse signature list in EFI binary'' @ nl) v
                     else v)))"

definition close_input :: step where
  "close_input = upd_ctx (\<lambda>c. c\<lparr>inpe := None\<rparr>)"

definition close_output :: "env \<Rightarrow> step" where
  "close_output e =
     steps [call_out e Finalize_signatures, call_out e Pe_update,
            upd_ctx (\<lambda>c. c\<lparr>outpe := None\<rparr>)]"

text \<open>\<^verbatim>\<open>pe_rawfile\<close>: the address and the length of the mapping, nothing for a
  \<^verbatim>\<open>NULL\<close> handle. The bytes are those read at that address when they are used.\<close>

definition pe_rawfile_size :: "machine \<Rightarrow> nat" where
  "pe_rawfile_size s = (case inpe (ctxp s) of None \<Rightarrow> 0 | Some (f, n) \<Rightarrow> n)"

definition pe_rawfile :: "machine \<Rightarrow> bytes" where
  "pe_rawfile s = (case mapped_bytes s of None \<Rightarrow> [] | Some b \<Rightarrow> b)"

text \<open>\<^verbatim>\<open>ftruncate(fd, size)\<close> on the file a path names.\<close>

definition ftruncate :: "env \<Rightarrow> string \<Rightarrow> nat \<Rightarrow> step" where
  "ftruncate e p n s =
     (case files s (env_inode e p) of
        None \<Rightarrow> s
      | Some b \<Rightarrow> s\<lparr>files := (files s)(env_inode e p \<mapsto> take n (b @ replicate n 0))\<rparr>)"

text \<open>\<^verbatim>\<open>open_output\<close>. The output file is created, or emptied when it exists; it is
  then extended to the mapped length and the bytes read through the mapping of the input
  are written into it. When the output path names the file that is mapped, those bytes
  are the zeros the file holds by then.\<close>

definition open_output :: "env \<Rightarrow> step" where
  "open_output e s =
     (case outfile (ctxp s) of
        None \<Rightarrow> die (''pesign: No output file specified.'' @ nl) s
      | Some p \<Rightarrow>
          if files s (env_inode e p) \<noteq> None \<and> force (ctxp s) = 0
          then die (''pesign: '' @ dq @ p @ dq @ '' exists and --force was not given.'' @ nl) s
          else
            (let t = open_creat_trunc e p s in
             if \<not> env_may_create e p
             then die (''pesign: Error opening output: '' @ env_errtext e @ nl) t
             else
               (let t' = ftruncate e p (pe_rawfile_size t) t;
                    raw = pe_rawfile t';
                    u = call (Write_raw p) (t'\<lparr>files := (files t')(env_inode e p \<mapsto> raw)\<rparr>)
                in if \<not> env_pe_begin e raw
                   then die (''pesign: could not load output file: '' @ env_errtext e @ nl) u
                   else call_out e Pe_clearcert (upd_ctx (\<lambda>c. c\<lparr>outpe := Some p\<rparr>) u))))"

text \<open>The five helpers that open a side file for reading share one shape, and so do the
  four that create one; the source repeats the body with another field and message.\<close>

definition open_for_input :: "env \<Rightarrow> string option \<Rightarrow> string \<Rightarrow> step" where
  "open_for_input e path what s =
     (case path of
        None \<Rightarrow> die (''pesign: No input file specified.'' @ nl) s
      | Some p \<Rightarrow>
          (let t = call (Open_rdonly p) s in
           if \<not> open_rdonly_ok e s p
           then die (''pesign: Error opening '' @ what @ '' for input: '' @ env_errtext e @ nl) t
           else t))"

definition open_for_output :: "env \<Rightarrow> string option \<Rightarrow> string \<Rightarrow> step" where
  "open_for_output e path what s =
     (case path of
        None \<Rightarrow> die (''pesign: No output file specified.'' @ nl) s
      | Some p \<Rightarrow>
          if files s (env_inode e p) \<noteq> None \<and> force (ctxp s) = 0
          then die (''pesign: '' @ dq @ p @ dq @ '' exists and --force was not given.'' @ nl) s
          else
            (let t = open_creat_trunc e p s in
             if \<not> env_may_create e p
             then die (''pesign: Error opening '' @ what @ '' for output: '' @ env_errtext e @ nl) t
             else t))"

definition open_rawsig_input :: "env \<Rightarrow> step" where
  "open_rawsig_input e s = open_for_input e (rawsig (ctxp s)) ''raw signature'' s"

definition open_sattr_input :: "env \<Rightarrow> step" where
  "open_sattr_input e s = open_for_input e (insattrs (ctxp s)) ''signed attributes'' s"

definition open_sig_input :: "env \<Rightarrow> step" where
  "open_sig_input e s = open_for_input e (insig (ctxp s)) ''signature'' s"

definition open_sattr_output :: "env \<Rightarrow> step" where
  "open_sattr_output e s = open_for_output e (outsattrs (ctxp s)) ''signed attributes'' s"

definition open_sig_output :: "env \<Rightarrow> step" where
  "open_sig_output e s = open_for_output e (outsig (ctxp s)) ''signature'' s"

definition open_pubkey_output :: "env \<Rightarrow> step" where
  "open_pubkey_output e s = open_for_output e (outkey (ctxp s)) ''pubkey'' s"

definition open_cert_output :: "env \<Rightarrow> step" where
  "open_cert_output e s = open_for_output e (outcert (ctxp s)) ''certificate'' s"

text \<open>The \<^verbatim>\<open>close_*\<close> helpers of the side files only release a descriptor.\<close>

definition close_side_file :: step where
  "close_side_file s = s"

definition check_inputs :: step where
  "check_inputs s =
     (case infile (ctxp s) of
        None \<Rightarrow> die (''pesign: No input file specified.'' @ nl) s
      | Some i \<Rightarrow>
          (case outfile (ctxp s) of
             None \<Rightarrow> die (''pesign: No output file specified.'' @ nl) s
           | Some out \<Rightarrow>
               if i = out
               then die (''pesign: in-place file editing is not yet supported'' @ nl) s
               else s))"

subsection \<open>Printing the digest\<close>

fun print_digest_loop :: "bytes \<Rightarrow> string" where
  "print_digest_loop [] = []"
| "print_digest_loop (b # bs) = printf_02x b @ print_digest_loop bs"

text \<open>\<^verbatim>\<open>print_digest\<close>: nothing for a \<^verbatim>\<open>NULL\<close> context; otherwise the prefix, two
  hexadecimal digits for each byte of the selected digest, and a newline. Reading the
  length of a digest that was never stored dereferences \<^verbatim>\<open>NULL\<close>.\<close>

definition print_digest :: "pesign_context option \<Rightarrow> step" where
  "print_digest pctx s =
     (case pctx of
        None \<Rightarrow> s
      | Some c \<Rightarrow>
          (let t = printf_stdout ''hash: '' s in
           case pe_digest (cms_ctx c) of
             None \<Rightarrow> t\<lparr>status := Faulted\<rparr>
           | Some d \<Rightarrow> steps [printf_stdout (print_digest_loop d), printf_stdout nl] t))"

text \<open>\<^verbatim>\<open>generate_digest(cms, pe, padding)\<close> is defined elsewhere: the digest it stores
  is the environment's, computed from the selected algorithm, the bytes behind the handle
  and the padding argument.\<close>

definition generate_digest :: "env \<Rightarrow> pe_handle \<Rightarrow> int \<Rightarrow> step" where
  "generate_digest e h padding s =
     upd_cms (\<lambda>m. m\<lparr>pe_digest :=
                 (case image_of e s h of
                    None \<Rightarrow> None
                  | Some b \<Rightarrow> env_generate_digest e (selected_digest m) b padding)\<rparr>)
       (call (Generate_digest h padding) s)"

definition calculate_signature_space :: "env \<Rightarrow> machine \<Rightarrow> int" where
  "calculate_signature_space e s =
     (case image_of e s Outpe of None \<Rightarrow> 0 | Some b \<Rightarrow> env_calculate_signature_space e b)"

definition get_sigspace_extend_amount :: "env \<Rightarrow> machine \<Rightarrow> int" where
  "get_sigspace_extend_amount e s =
     (case image_of e s Outpe of None \<Rightarrow> 0 | Some b \<Rightarrow> env_get_sigspace_extend_amount e b)"

definition find_certificate :: "env \<Rightarrow> int \<Rightarrow> step" where
  "find_certificate e needs_private_key s =
     (call (Find_certificate needs_private_key) s)
       \<lparr>rc := env_find_certificate e (certname (cms_ctx (ctxp s))) needs_private_key\<rparr>"

definition could_not_find_certificate :: "machine \<Rightarrow> string" where
  "could_not_find_certificate s =
     ''pesign: Could not find certificate '' @
     (case certname (cms_ctx (ctxp s)) of None \<Rightarrow> ''(null)'' | Some n \<Rightarrow> n) @ nl"

subsection \<open>main: from the options to the action switch\<close>

definition die_if :: "(machine \<Rightarrow> bool) \<Rightarrow> (machine \<Rightarrow> string) \<Rightarrow> step" where
  "die_if cond msg s = (if cond s then die (msg s) s else s)"

text \<open>\<^verbatim>\<open>POPT_ERROR_ERRNO\<close> of \<^verbatim>\<open>popt.h\<close>.\<close>

definition POPT_ERROR_ERRNO :: int where
  "POPT_ERROR_ERRNO = - 16"

text \<open>\<^verbatim>\<open>while ((rc = poptGetNextOpt(optCon)) > 0) ;\<close> over what the calls do; after
  the last option the library returns \<open>-1\<close>. The result is the value that ends the loop,
  or \<open>None\<close> when a call printed the help text and ended the process.\<close>

fun popt_loop :: "popt_return list \<Rightarrow> int option" where
  "popt_loop [] = Some (- 1)"
| "popt_loop (Prints_help # rs) = None"
| "popt_loop (Returns r # rs) = (if r > 0 then popt_loop rs else Some r)"

definition parse_options :: "env \<Rightarrow> step" where
  "parse_options e =
     steps
       [(\<lambda>s. s\<lparr>rc := env_popt_config_rc e\<rparr>),
        die_if (\<lambda>s. rc s < 0 \<and> \<not> (rc s = POPT_ERROR_ERRNO \<and> env_popt_config_enoent e))
          (\<lambda>s. ''pesign: poptReadDefaultConfig failed: '' @ env_errtext e @ nl),
        (\<lambda>s. case popt_loop (env_popt_next_opts e) of
                None \<Rightarrow> steps [printf_stdout (env_popt_help e), exit_with 0] s
              | Some r \<Rightarrow> s\<lparr>rc := r\<rparr>),
        die_if (\<lambda>s. rc s < - 1)
          (\<lambda>s. ''pesign: Invalid argument: '' @ env_errtext e @ nl),
        die_if (\<lambda>s. env_popt_peek_arg e \<noteq> None)
          (\<lambda>s. ''pesign: Invalid Argument: '' @ dq @
                (case env_popt_peek_arg e of None \<Rightarrow> [] | Some a \<Rightarrow> a) @ dq @ nl)]"

text \<open>\<^verbatim>\<open>ctxp->signum = strtol(signum, NULL, 0)\<close>: the \<^verbatim>\<open>long\<close> is stored in an
  \<^verbatim>\<open>int\<close>, which keeps its low 32 bits.\<close>

definition int_of_long :: "int \<Rightarrow> int" where
  "int_of_long v = sint (word_of_int v :: 32 word)"

definition parse_signum :: "env \<Rightarrow> options \<Rightarrow> step" where
  "parse_signum e l s =
     (case opt_signum l of
        None \<Rightarrow> s
      | Some str \<Rightarrow>
          steps
            [upd_ctx (\<lambda>c. c\<lparr>signum := int_of_long (fst (env_strtol e str))\<rparr>),
             die_if (\<lambda>s. snd (env_strtol e str) \<noteq> 0)
               (\<lambda>s. ''invalid signature number: '' @ env_errtext e @ nl)] s)"

text \<open>The assembly of \<^verbatim>\<open>action\<close> and \<^verbatim>\<open>need_db\<close>, statement by statement.\<close>

definition assemble_action :: "options \<Rightarrow> pesign_context \<Rightarrow> int \<times> int" where
  "assemble_action l c =
     (let action = (0::int); need_db = (0::int);
          action = (if opt_daemon l \<noteq> 0 then action OR DAEMONIZE else action);
          (action, need_db) =
            (if rawsig c \<noteq> None then (action OR IMPORT_RAW_SIGNATURE, 1) else (action, need_db));
          action = (if insattrs c \<noteq> None then action OR IMPORT_SATTRS else action);
          action = (if outsattrs c \<noteq> None then action OR EXPORT_SATTRS else action);
          action = (if insig c \<noteq> None then action OR IMPORT_SIGNATURE else action);
          (action, need_db) =
            (if outkey c \<noteq> None then (action OR EXPORT_PUBKEY, 1) else (action, need_db));
          (action, need_db) =
            (if outcert c \<noteq> None then (action OR EXPORT_CERT, 1) else (action, need_db));
          action = (if outsig c \<noteq> None then action OR EXPORT_SIGNATURE else action);
          action = (if opt_remove l \<noteq> 0 then action OR REMOVE_SIGNATURE else action);
          action = (if opt_list l \<noteq> 0 then action OR LIST_SIGNATURES else action);
          (action, need_db) =
            (if sign c \<noteq> 0
             then (let action = action OR GENERATE_SIGNATURE;
                       action = (if action AND EXPORT_SIGNATURE = 0
                                 then action OR IMPORT_SIGNATURE else action)
                   in (action, 1))
             else (action, need_db));
          action = (if hash c \<noteq> 0 then action OR (GENERATE_DIGEST OR PRINT_DIGEST) else action)
      in (action, need_db))"

definition nss_setup :: "env \<Rightarrow> options \<Rightarrow> int \<Rightarrow> step" where
  "nss_setup e l need_db s =
     (if opt_daemon l = 0
      then
        steps
          [(\<lambda>s. if need_db \<noteq> 0
                then
                  (let t = call (Nss_init (opt_certdir l)) s in
                   if \<not> env_nss_init e (opt_certdir l)
                   then
                     steps
                       [(\<lambda>s. s\<lparr>rc := env_asprintf e\<rparr>),
                        (\<lambda>s. if rc s > 0
                              then steps
                                     [(\<lambda>s. s\<lparr>rc := env_glob e\<rparr>),
                                      die_if (\<lambda>s. rc s \<noteq> 0)
                                        (\<lambda>s. ''pesign: Could not open NSS database ('' @ dq @
                                              env_errtext e @ dq @ ''): '' @ env_errtext e @ nl)] s
                              else s),
                        die (''pesign: Could not initialize nss. NSS says '' @ dq @
                             env_errtext e @ dq @ '' errno says '' @ dq @ env_errtext e @ dq @
                             nl @ nl)] t
                   else t)
                else
                  (let t = call Nss_nodb_init s in
                   if \<not> env_nss_nodb_init e
                   then die (''pesign: Could not initialize nss. NSS says '' @ dq @
                             env_errtext e @ dq @ '' errno says '' @ dq @ env_errtext e @ dq @
                             nl @ nl) t
                   else t)),
           die_if (\<lambda>s. \<not> env_register_oids e) (\<lambda>s. ''Could not register OIDs'' @ nl)] s
      else s)"

text \<open>Lines 694 to 702: an unknown digest name ends the run, with status \<^verbatim>\<open>!is_help\<close>.\<close>

definition digest_setup :: "env \<Rightarrow> options \<Rightarrow> step" where
  "digest_setup e l s =
     (let t = s\<lparr>rc := env_set_digest_parameters e (opt_digest_name l)\<rparr>;
          is_help = (if opt_digest_name l = ''help'' then 1 else 0 :: int)
      in if rc t < 0
         then
           steps
             [(\<lambda>s. if is_help = 0
                    then fprintf_stderr
                           (''Digest '' @ dq @ opt_digest_name l @ dq @ '' not found.'' @ nl) s
                    else s),
              exit_with (if is_help = 0 then 1 else 0)] t
         else upd_cms (\<lambda>m. m\<lparr>selected_digest := Some (opt_digest_name l)\<rparr>) t)"

text \<open>\<^verbatim>\<open>name ? PORT_ArenaStrdup(arena, name) : NULL\<close>\<close>

definition arena_strdup :: "env \<Rightarrow> string option \<Rightarrow> string option" where
  "arena_strdup e name = (case name of None \<Rightarrow> None | Some n \<Rightarrow> env_arena_strdup e n)"

definition names_setup :: "env \<Rightarrow> options \<Rightarrow> step" where
  "names_setup e l =
     steps
       [upd_cms (\<lambda>m. m\<lparr>tokenname := arena_strdup e (opt_tokenname l)\<rparr>),
        die_if (\<lambda>s. opt_tokenname l \<noteq> None \<and> tokenname (cms_ctx (ctxp s)) = None)
          (\<lambda>s. ''could not allocate token name: '' @ env_errtext e @ nl),
        upd_cms (\<lambda>m. m\<lparr>certname := arena_strdup e (opt_certname l)\<rparr>),
        die_if (\<lambda>s. opt_certname l \<noteq> None \<and> certname (cms_ctx (ctxp s)) = None)
          (\<lambda>s. ''could not allocate certificate name: '' @ env_errtext e @ nl),
        die_if (\<lambda>s. sign (ctxp s) \<noteq> 0 \<and> certname (cms_ctx (ctxp s)) = None)
          (\<lambda>s. ''pesign: signing requested but no certificate nickname provided'' @ nl)]"

subsection \<open>main: the action switch\<close>

definition generate_signature :: step where
  "generate_signature s = call (Generate_signature (pe_digest (cms_ctx (ctxp s)))) s"

definition insert_signature :: step where
  "insert_signature s = call (Insert_signature (signum (ctxp s))) s"

definition find_certificate_or_die :: "env \<Rightarrow> int \<Rightarrow> step" where
  "find_certificate_or_die e needs_private_key =
     steps [find_certificate e needs_private_key,
            die_if (\<lambda>s. rc s < 0) could_not_find_certificate]"

definition calculate_and_allocate :: "env \<Rightarrow> step" where
  "calculate_and_allocate e =
     steps [(\<lambda>s. (call Calculate_signature_space s)\<lparr>sigspace := calculate_signature_space e s\<rparr>),
            (\<lambda>s. call_out e (Allocate_signature_space (sigspace s)) s)]"

text \<open>\<^verbatim>\<open>case IMPORT_RAW_SIGNATURE|IMPORT_SATTRS\<close>\<close>

definition case_import_raw_signature :: "env \<Rightarrow> step" where
  "case_import_raw_signature e =
     steps
       [check_inputs,
        find_certificate_or_die e 0,
        open_rawsig_input e,
        open_sattr_input e,
        call Import_raw_signature,
        close_side_file,
        close_side_file,
        open_input e,
        open_output e,
        close_input,
        generate_digest e Outpe 1,
        calculate_and_allocate e,
        generate_signature,
        insert_signature,
        close_output e]"

text \<open>\<^verbatim>\<open>case EXPORT_SATTRS\<close>\<close>

definition case_export_sattrs :: "env \<Rightarrow> step" where
  "case_export_sattrs e =
     steps
       [open_input e,
        open_sattr_output e,
        generate_digest e Inpe 1,
        (\<lambda>s. call_on e Generate_sattr_blob (outsattrs (ctxp s)) s),
        close_side_file,
        close_input]"

text \<open>\<^verbatim>\<open>case IMPORT_SIGNATURE\<close>\<close>

definition case_import_signature :: "env \<Rightarrow> step" where
  "case_import_signature e =
     steps
       [check_inputs,
        die_if (\<lambda>s. signum (ctxp s) > num_signatures (cms_ctx (ctxp s)) + 1)
          (\<lambda>s. ''Invalid signature number.'' @ nl),
        open_input e,
        open_output e,
        close_input,
        open_sig_input e,
        call Parse_signature,
        (\<lambda>s. (call Get_sigspace_extend_amount s)\<lparr>sigspace := get_sigspace_extend_amount e s\<rparr>),
        (\<lambda>s. call_out e (Allocate_signature_space (sigspace s)) s),
        call Check_signature_space,
        insert_signature,
        close_side_file,
        close_output e]"

text \<open>\<^verbatim>\<open>case EXPORT_PUBKEY\<close>\<close>

definition case_export_pubkey :: "env \<Rightarrow> step" where
  "case_export_pubkey e =
     steps
       [find_certificate_or_die e 1,
        open_pubkey_output e,
        (\<lambda>s. call_on e Export_pubkey (outkey (ctxp s)) s)]"

text \<open>\<^verbatim>\<open>case EXPORT_CERT\<close>\<close>

definition case_export_cert :: "env \<Rightarrow> step" where
  "case_export_cert e =
     steps
       [find_certificate_or_die e 0,
        open_cert_output e,
        (\<lambda>s. call_on e Export_cert (outcert (ctxp s)) s)]"

text \<open>\<^verbatim>\<open>case EXPORT_SIGNATURE\<close>\<close>

definition case_export_signature :: "env \<Rightarrow> step" where
  "case_export_signature e =
     steps
       [open_input e,
        open_sig_output e,
        die_if (\<lambda>s. signum (ctxp s) > num_signatures (cms_ctx (ctxp s)))
          (\<lambda>s. ''Invalid signature number.'' @ nl),
        (\<lambda>s. if signum (ctxp s) < 0 then upd_ctx (\<lambda>c. c\<lparr>signum := 0\<rparr>) s else s),
        die_if (\<lambda>s. signum (ctxp s) \<ge> num_signatures (cms_ctx (ctxp s)))
          (\<lambda>s. ''No valid signature #'' @ printf_d (signum (ctxp s)) @ ''.'' @ nl),
        (\<lambda>s. call (Select_signature (signum (ctxp s))) s),
        (\<lambda>s. call_on e (Export_signature (ascii (ctxp s))) (outsig (ctxp s)) s),
        close_input,
        close_side_file]"

text \<open>\<^verbatim>\<open>case REMOVE_SIGNATURE\<close>\<close>

definition case_remove_signature :: "env \<Rightarrow> step" where
  "case_remove_signature e =
     steps
       [check_inputs,
        open_input e,
        open_output e,
        close_input,
        die_if (\<lambda>s. signum (ctxp s) < 0 \<or> signum (ctxp s) \<ge> num_signatures (cms_ctx (ctxp s)))
          (\<lambda>s. ''Invalid signature number '' @ printf_d (signum (ctxp s)) @
                ''.  Must be between 0 and '' @
                printf_d (num_signatures (cms_ctx (ctxp s)) - 1) @ ''.'' @ nl),
        (\<lambda>s. call_out e (Remove_signature (signum (ctxp s))) s),
        close_output e]"

text \<open>\<^verbatim>\<open>case LIST_SIGNATURES\<close>\<close>

definition case_list_signatures :: "env \<Rightarrow> step" where
  "case_list_signatures e = steps [open_input e, call List_signatures]"

text \<open>\<^verbatim>\<open>case GENERATE_DIGEST|PRINT_DIGEST\<close>\<close>

definition case_print_digest :: "env \<Rightarrow> options \<Rightarrow> step" where
  "case_print_digest e l =
     steps
       [open_input e,
        generate_digest e Inpe (opt_padding l),
        (\<lambda>s. print_digest (Some (ctxp s)) s)]"

text \<open>\<^verbatim>\<open>case EXPORT_SIGNATURE|GENERATE_SIGNATURE\<close>\<close>

definition case_sign_export :: "env \<Rightarrow> step" where
  "case_sign_export e =
     steps
       [find_certificate_or_die e 1,
        open_input e,
        open_sig_output e,
        generate_digest e Inpe 1,
        generate_signature,
        (\<lambda>s. call_on e (Export_signature (ascii (ctxp s))) (outsig (ctxp s)) s)]"

text \<open>\<^verbatim>\<open>case IMPORT_SIGNATURE|GENERATE_SIGNATURE\<close>\<close>

definition case_sign_import :: "env \<Rightarrow> step" where
  "case_sign_import e =
     steps
       [check_inputs,
        find_certificate_or_die e 1,
        die_if (\<lambda>s. signum (ctxp s) > num_signatures (cms_ctx (ctxp s)) + 1)
          (\<lambda>s. ''Invalid signature number.'' @ nl),
        open_input e,
        open_output e,
        close_input,
        generate_digest e Outpe 1,
        calculate_and_allocate e,
        generate_digest e Outpe 1,
        generate_signature,
        insert_signature,
        close_output e]"

text \<open>\<^verbatim>\<open>case DAEMONIZE\<close>\<close>

definition case_daemonize :: "env \<Rightarrow> options \<Rightarrow> step" where
  "case_daemonize e l s = (call (Daemonize (opt_fork l)) s)\<lparr>rc := env_daemonize e\<rparr>"

text \<open>The loop of the \<^verbatim>\<open>default\<close> case:
  \<^verbatim>\<open>for (int i = 1; i < FLAG_LIST_END; i <<= 1) if (action & i) print_flag_name(stderr, i);\<close>
  It starts at 1, so \<open>i\<close> is positive throughout.\<close>

function incompatible_flags_loop :: "int \<Rightarrow> int \<Rightarrow> string" where
  "incompatible_flags_loop action i =
     (if 0 < i \<and> i < FLAG_LIST_END
      then (if action AND i \<noteq> 0 then print_flag_name i else [])
           @ incompatible_flags_loop action (push_bit 1 i)
      else [])"
  by pat_completeness auto
termination
  by (relation "measure (\<lambda>(action, i). nat (FLAG_LIST_END - i))")
     (auto simp: FLAG_LIST_END_def push_bit_eq_mult)

definition incompatible_flags :: "int \<Rightarrow> string" where
  "incompatible_flags action =
     ''Incompatible flags (0x'' @ printf_08x action @ ''): '' @
     incompatible_flags_loop action 1 @ nl"

definition known_actions :: "int list" where
  "known_actions =
     [NO_FLAGS, IMPORT_RAW_SIGNATURE OR IMPORT_SATTRS, EXPORT_SATTRS, IMPORT_SIGNATURE,
      EXPORT_PUBKEY, EXPORT_CERT, EXPORT_SIGNATURE, REMOVE_SIGNATURE, LIST_SIGNATURES,
      GENERATE_DIGEST OR PRINT_DIGEST, EXPORT_SIGNATURE OR GENERATE_SIGNATURE,
      IMPORT_SIGNATURE OR GENERATE_SIGNATURE, DAEMONIZE]"

definition action_switch :: "env \<Rightarrow> options \<Rightarrow> int \<Rightarrow> step" where
  "action_switch e l action =
     (if action = NO_FLAGS
        then steps [fprintf_stderr (''pesign: Nothing to do.'' @ nl), exit_with 0]
      else if action = (IMPORT_RAW_SIGNATURE OR IMPORT_SATTRS) then case_import_raw_signature e
      else if action = EXPORT_SATTRS then case_export_sattrs e
      else if action = IMPORT_SIGNATURE then case_import_signature e
      else if action = EXPORT_PUBKEY then case_export_pubkey e
      else if action = EXPORT_CERT then case_export_cert e
      else if action = EXPORT_SIGNATURE then case_export_signature e
      else if action = REMOVE_SIGNATURE then case_remove_signature e
      else if action = LIST_SIGNATURES then case_list_signatures e
      else if action = (GENERATE_DIGEST OR PRINT_DIGEST) then case_print_digest e l
      else if action = (EXPORT_SIGNATURE OR GENERATE_SIGNATURE) then case_sign_export e
      else if action = (IMPORT_SIGNATURE OR GENERATE_SIGNATURE) then case_sign_import e
      else if action = DAEMONIZE then case_daemonize e l
      else die (incompatible_flags action))"

text \<open>After the switch: \<^verbatim>\<open>NSS_Shutdown\<close> unless running as a daemon, then
  \<^verbatim>\<open>return (rc < 0)\<close>.\<close>

definition finish :: "env \<Rightarrow> options \<Rightarrow> step" where
  "finish e l =
     steps
       [die_if (\<lambda>s. opt_daemon l = 0 \<and> \<not> env_nss_shutdown e)
          (\<lambda>s. ''could not shut down NSS: '' @ env_errtext e),
        (\<lambda>s. exit_with (if rc s < 0 then 1 else 0) s)]"

text \<open>Everything before the switch. \<open>c\<close> is the context as \<^verbatim>\<open>pesign_context_new\<close> and
  the option table leave it, \<open>fs\<close> the files on disk when the program starts.\<close>

definition initial :: "env \<Rightarrow> pesign_context \<Rightarrow> (nat \<Rightarrow> bytes option) \<Rightarrow> machine" where
  "initial e c fs =
     \<lparr>ctxp = c, rc = env_pesign_context_new e, sigspace = 0, files = fs,
      stdout_text = [], stderr_text = [], trace = [], status = Running\<rparr>"

definition startup :: "env \<Rightarrow> options \<Rightarrow> step" where
  "startup e l =
     steps
       [die_if (\<lambda>s. rc s < 0) (\<lambda>s. ''Could not initialize context: '' @ env_errtext e @ nl),
        parse_options e,
        parse_signum e l,
        (\<lambda>s. nss_setup e l (snd (assemble_action l (ctxp s))) s)]"

definition before_switch :: "env \<Rightarrow> options \<Rightarrow> step" where
  "before_switch e l = steps [startup e l, digest_setup e l, names_setup e l]"

definition main :: "env \<Rightarrow> options \<Rightarrow> pesign_context \<Rightarrow> (nat \<Rightarrow> bytes option) \<Rightarrow> machine" where
  "main e l c fs =
     steps
       [before_switch e l,
        (\<lambda>s. action_switch e l (fst (assemble_action l (ctxp s))) s),
        finish e l]
       (initial e c fs)"

text \<open>The exit status of the process, when it has one.\<close>

definition exit_code :: "machine \<Rightarrow> int option" where
  "exit_code s = (case status s of Exited c \<Rightarrow> Some c | _ \<Rightarrow> None)"

subsection \<open>The state in which the action switch is entered\<close>

fun is_nss_event :: "event \<Rightarrow> bool" where
  "is_nss_event (Nss_init d) = True"
| "is_nss_event Nss_nodb_init = True"
| "is_nss_event ev = False"

text \<open>What the statements before the switch leave alone: the files, the paths and flags of the context, the signature count and the stored digest; they
  call nothing but the NSS initialisation. A run they end has status 1 and a message, or
  status 0 and none; only the help of the option parser writes to the standard output.\<close>

definition frame :: "pesign_context \<Rightarrow> (nat \<Rightarrow> bytes option) \<Rightarrow> machine \<Rightarrow> bool" where
  "frame c fs t =
     (files t = fs \<and> sigspace t = 0 \<and>
      list_all is_nss_event (trace t) \<and>
      infile (ctxp t) = infile c \<and> outfile (ctxp t) = outfile c \<and>
      insig (ctxp t) = insig c \<and> outsig (ctxp t) = outsig c \<and>
      rawsig (ctxp t) = rawsig c \<and> insattrs (ctxp t) = insattrs c \<and>
      outsattrs (ctxp t) = outsattrs c \<and> outkey (ctxp t) = outkey c \<and>
      outcert (ctxp t) = outcert c \<and> force (ctxp t) = force c \<and>
      sign (ctxp t) = sign c \<and> hash (ctxp t) = hash c \<and> ascii (ctxp t) = ascii c \<and>
      verbose (ctxp t) = verbose c \<and> inpe (ctxp t) = inpe c \<and> outpe (ctxp t) = outpe c \<and>
      num_signatures (cms_ctx (ctxp t)) = num_signatures (cms_ctx c) \<and>
      pe_digest (cms_ctx (ctxp t)) = pe_digest (cms_ctx c) \<and>
      (case status t of
         Running \<Rightarrow> stderr_text t = [] \<and> stdout_text t = []
       | Exited k \<Rightarrow> (k = 1 \<and> stderr_text t \<noteq> []) \<or> (k = 0 \<and> stderr_text t = [])
       | Faulted \<Rightarrow> False))"

text \<open>The signature number the run works with: the parsed \<^verbatim>\<open>--signature-number\<close>, or
  what \<^verbatim>\<open>pesign_context_new\<close> put there.\<close>

definition requested_signum :: "env \<Rightarrow> options \<Rightarrow> pesign_context \<Rightarrow> int" where
  "requested_signum e l c =
     (case opt_signum l of None \<Rightarrow> signum c
      | Some str \<Rightarrow> int_of_long (fst (env_strtol e str)))"

text \<open>What is known of the state in which the switch is entered.\<close>

definition entered :: "env \<Rightarrow> options \<Rightarrow> pesign_context \<Rightarrow> (nat \<Rightarrow> bytes option) \<Rightarrow> machine \<Rightarrow> bool" where
  "entered e l c fs s =
     (status s = Running \<and> frame c fs s \<and>
      signum (ctxp s) = requested_signum e l c \<and>
      certname (cms_ctx (ctxp s)) = arena_strdup e (opt_certname l) \<and>
      selected_digest (cms_ctx (ctxp s)) = Some (opt_digest_name l) \<and>
      rc s = env_set_digest_parameters e (opt_digest_name l) \<and> 0 \<le> rc s)"

text \<open>The run reaches the action switch.\<close>

definition reaches_switch :: "env \<Rightarrow> options \<Rightarrow> pesign_context \<Rightarrow> (nat \<Rightarrow> bytes option) \<Rightarrow> bool" where
  "reaches_switch e l c fs = (status (before_switch e l (initial e c fs)) = Running)"

definition the_action :: "options \<Rightarrow> pesign_context \<Rightarrow> int" where
  "the_action l c = fst (assemble_action l c)"

subsection \<open>The digest names\<close>

text \<open>Modelled from the spec: \<^verbatim>\<open>set_digest_parameters\<close> is defined outside
  \<^verbatim>\<open>pesign.c\<close>. The spec gives the digest algorithm names as
  \<^verbatim>\<open>sha1|sha256|sha384|sha512\<close>; the helper accepts these (result 0) and rejects every
  other name (a negative result).\<close>

definition spec_set_digest_parameters :: "string \<Rightarrow> int" where
  "spec_set_digest_parameters name =
     (if name \<in> set [''sha1'', ''sha256'', ''sha384'', ''sha512''] then 0 else - 1)"

subsection \<open>Reading a trace\<close>

fun is_file_event :: "event \<Rightarrow> bool" where
  "is_file_event (Open_rdonly p) = True"
| "is_file_event (Open_creat_trunc p) = True"
| "is_file_event (Write_raw p) = True"
| "is_file_event ev = False"

definition file_events :: "event list \<Rightarrow> event list" where
  "file_events tr = filter is_file_event tr"

text \<open>The padding argument of every digest computation of a trace, in order.\<close>

fun digest_paddings :: "event list \<Rightarrow> int list" where
  "digest_paddings [] = []"
| "digest_paddings (Generate_digest h p # tr) = p # digest_paddings tr"
| "digest_paddings (ev # tr) = digest_paddings tr"

text \<open>The events of a trace that concern the digest, the allocation of signature space
  and the signing.\<close>

fun is_signing_event :: "event \<Rightarrow> bool" where
  "is_signing_event (Generate_digest h p) = True"
| "is_signing_event (Allocate_signature_space n) = True"
| "is_signing_event (Generate_signature d) = True"
| "is_signing_event ev = False"

definition signing_events :: "event list \<Rightarrow> event list" where
  "signing_events tr = filter is_signing_event tr"




subsection \<open>Concrete runs\<close>

text \<open>An environment in which every outside call succeeds: \<^verbatim>\<open>in.efi\<close> and
  \<^verbatim>\<open>./in.efi\<close> name file 1, \<^verbatim>\<open>out.efi\<close> file 2 and \<^verbatim>\<open>sig.p7\<close> file 3; the image has
  no signature,
  a digest is 32 zero bytes, allocating signature space appends that many zero bytes.\<close>

definition env0 :: env where
  "env0 =
     \<lparr>env_pesign_context_new = 0, env_popt_config_rc = 0, env_popt_config_enoent = False,
      env_popt_next_opts = [], env_popt_help = ''Usage: pesign [OPTION...]'' @ nl,
      env_popt_peek_arg = None,
      env_strtol = (\<lambda>s. (if s = ''1'' then 1 else if s = ''2'' then 2
                           else if s = ''5'' then 5 else if s = ''-1'' then - 1 else 0, 0)),
      env_nss_init = (\<lambda>d. True), env_asprintf = 1, env_glob = 0, env_nss_nodb_init = True,
      env_register_oids = True, env_set_digest_parameters = spec_set_digest_parameters,
      env_arena_strdup = Some, env_find_certificate = (\<lambda>n k. 0),
      env_inode = (\<lambda>p. if p = ''in.efi'' \<or> p = ''./in.efi'' then 1
                        else if p = ''out.efi'' then 2 else if p = ''sig.p7'' then 3 else 0),
      env_may_open = (\<lambda>p. True), env_may_create = (\<lambda>p. True),
      env_pe_begin = (\<lambda>b. True), env_parse_signatures = (\<lambda>b. (0, 0)),
      env_generate_digest = (\<lambda>n b p. Some (replicate 32 0)),
      env_calculate_signature_space = (\<lambda>b. 8),
      env_get_sigspace_extend_amount = (\<lambda>b. 8),
      env_helper_effect =
        (\<lambda>ev b. case ev of Allocate_signature_space n \<Rightarrow> b @ replicate (nat n) 0 | _ \<Rightarrow> b),
      env_daemonize = 0, env_nss_shutdown = True, env_errtext = ''error''\<rparr>"

definition cms0 :: cms_context where
  "cms0 = \<lparr>num_signatures = 0, tokenname = None, certname = None,
           selected_digest = None, pe_digest = None\<rparr>"

text \<open>The context and the locals as \<^verbatim>\<open>main\<close> has them when no option is given.\<close>

definition ctx0 :: pesign_context where
  "ctx0 =
     \<lparr>infile = None, outfile = None, insig = None, outsig = None, rawsig = None,
      insattrs = None, outsattrs = None, outkey = None, outcert = None,
      force = 0, sign = 0, hash = 0, ascii = 0, verbose = 0, signum = - 1,
      inpe = None, outpe = None, cms_ctx = cms0\<rparr>"

definition opts0 :: options where
  "opts0 =
     \<lparr>opt_list = 0, opt_remove = 0, opt_daemon = 0, opt_fork = 1, opt_padding = 0,
      opt_digest_name = ''sha256'', opt_tokenname = Some ''NSS Certificate DB'',
      opt_certname = None, opt_certdir = ''/etc/pki/pesign'', opt_signum = None\<rparr>"

text \<open>A disk with one file, an image of four bytes.\<close>

definition fs0 :: "nat \<Rightarrow> bytes option" where
  "fs0 = (\<lambda>f. None)(1 \<mapsto> [77, 90, 0, 1])"

text \<open>\<^verbatim>\<open>-i in.efi -o out.efi\<close>\<close>

definition ctx_io :: pesign_context where
  "ctx_io = ctx0\<lparr>infile := Some ''in.efi'', outfile := Some ''out.efi''\<rparr>"

text \<open>\<^verbatim>\<open>--remove-signature\<close>\<close>

definition opts_remove :: options where
  "opts_remove = opts0\<lparr>opt_remove := 1\<rparr>"

text \<open>\<^verbatim>\<open>-i in.efi -o in.efi\<close>\<close>

definition ctx_same :: pesign_context where
  "ctx_same = ctx0\<lparr>infile := Some ''in.efi'', outfile := Some ''in.efi''\<rparr>"

text \<open>The flags that have a name, by increasing bit, with the name printed for each.\<close>

definition named_flags :: "(int \<times> string) list" where
  "named_flags =
     [(GENERATE_DIGEST, ''hash''), (GENERATE_SIGNATURE, ''sign''),
      (IMPORT_RAW_SIGNATURE, ''import-raw-sig''), (IMPORT_SIGNATURE, ''import-sig''),
      (IMPORT_SATTRS, ''import-sattrs''), (EXPORT_SATTRS, ''export-sattrs''),
      (EXPORT_SIGNATURE, ''export-sig''), (REMOVE_SIGNATURE, ''remove''),
      (LIST_SIGNATURES, ''list''), (EXPORT_PUBKEY, ''export-pubkey''),
      (EXPORT_CERT, ''export-cert''), (DAEMONIZE, ''daemonize'')]"

text \<open>\<^verbatim>\<open>-i in.efi -o out.efi --hash --sign\<close>\<close>

definition ctx_hash_sign :: pesign_context where
  "ctx_hash_sign = ctx_io\<lparr>hash := 1, sign := 1\<rparr>"

text \<open>\<^verbatim>\<open>-c signer\<close>\<close>

definition opts_cert :: options where
  "opts_cert = opts0\<lparr>opt_certname := Some ''signer''\<rparr>"

fun is_find_certificate :: "event \<Rightarrow> bool" where
  "is_find_certificate (Find_certificate k) = True"
| "is_find_certificate ev = False"

text \<open>The part of a trace that precedes the first certificate lookup.\<close>

definition before_lookup :: "event list \<Rightarrow> event list" where
  "before_lookup tr = takeWhile (\<lambda>ev. \<not> is_find_certificate ev) tr"

text \<open>\<^verbatim>\<open>-i in.efi -o out.efi --sign\<close>\<close>

definition ctx_sign :: pesign_context where
  "ctx_sign = ctx_io\<lparr>sign := 1\<rparr>"

text \<open>A certificate store that resolves no nickname.\<close>

definition env_no_cert :: env where
  "env_no_cert = env0\<lparr>env_find_certificate := (\<lambda>n k. - 1)\<rparr>"

text \<open>\<^verbatim>\<open>--remove-signature -d help\<close>\<close>

definition opts_remove_help :: options where
  "opts_remove_help = opts_remove\<lparr>opt_digest_name := ''help''\<rparr>"

text \<open>\<^verbatim>\<open>--remove-signature --signature-number 0\<close>\<close>

definition opts_remove_0 :: options where
  "opts_remove_0 = opts_remove\<lparr>opt_signum := Some ''0''\<rparr>"

text \<open>\<^verbatim>\<open>-i in.efi -o ./in.efi --force\<close>: two strings, one file.\<close>

definition ctx_alias :: pesign_context where
  "ctx_alias = ctx0\<lparr>infile := Some ''in.efi'', outfile := Some ''./in.efi'', force := 1\<rparr>"

text \<open>An image that holds one signature.\<close>

definition env_one_sig :: env where
  "env_one_sig = env0\<lparr>env_parse_signatures := (\<lambda>b. (0, 1))\<rparr>"

text \<open>\<^verbatim>\<open>-c signer -d help\<close>\<close>

definition opts_cert_help :: options where
  "opts_cert_help = opts_cert\<lparr>opt_digest_name := ''help''\<rparr>"

text \<open>\<^verbatim>\<open>-i in.efi -o in.efi --sign\<close>\<close>

definition ctx_sign_same :: pesign_context where
  "ctx_sign_same = ctx_same\<lparr>sign := 1\<rparr>"





text \<open>\<^verbatim>\<open>-i in.efi -o out.efi --import-signed-certificate sig.p7\<close>\<close>

definition ctx_import :: pesign_context where
  "ctx_import = ctx_io\<lparr>insig := Some ''sig.p7''\<rparr>"

text \<open>\<^verbatim>\<open>--signature-number 2\<close> and \<^verbatim>\<open>--signature-number 1\<close>\<close>

definition opts_signum_2 :: options where
  "opts_signum_2 = opts0\<lparr>opt_signum := Some ''2''\<rparr>"

definition opts_signum_1 :: options where
  "opts_signum_1 = opts0\<lparr>opt_signum := Some ''1''\<rparr>"

text \<open>An image that holds three signatures.\<close>

definition env_three_sigs :: env where
  "env_three_sigs = env0\<lparr>env_parse_signatures := (\<lambda>b. (0, 3))\<rparr>"

text \<open>The disk with a signature file beside the image.\<close>

definition fs_sig :: "nat \<Rightarrow> bytes option" where
  "fs_sig = fs0(3 \<mapsto> [48, 0])"

text \<open>\<^verbatim>\<open>-d help\<close>\<close>

definition opts_help :: options where
  "opts_help = opts0\<lparr>opt_digest_name := ''help''\<rparr>"

text \<open>\<^verbatim>\<open>-d md5\<close>\<close>

definition opts_md5 :: options where
  "opts_md5 = opts0\<lparr>opt_digest_name := ''md5''\<rparr>"

text \<open>\<^verbatim>\<open>-i in.efi --hash\<close>\<close>

definition ctx_hash :: pesign_context where
  "ctx_hash = ctx0\<lparr>infile := Some ''in.efi'', hash := 1\<rparr>"

text \<open>\<^verbatim>\<open>--signature-number 99999999999999999999\<close>, on which \<^verbatim>\<open>strtol\<close> sets
  \<^verbatim>\<open>errno\<close> to \<^verbatim>\<open>ERANGE\<close>.\<close>

definition opts_signum_huge :: options where
  "opts_signum_huge = opts0\<lparr>opt_signum := Some ''99999999999999999999''\<rparr>"

definition env_erange :: env where
  "env_erange = env0\<lparr>env_strtol := (\<lambda>s. (9223372036854775807, 34))\<rparr>"

text \<open>A digest that is the bytes 0 to 31.\<close>

definition env_digest_count :: env where
  "env_digest_count = env0\<lparr>env_generate_digest := (\<lambda>n b p. Some (map of_nat [0..<32]))\<rparr>"






section \<open>Properties\<close>

lemmas flag_defs =
  NO_FLAGS_def GENERATE_DIGEST_def GENERATE_SIGNATURE_def IMPORT_RAW_SIGNATURE_def
  IMPORT_SIGNATURE_def IMPORT_SATTRS_def EXPORT_SATTRS_def EXPORT_SIGNATURE_def
  REMOVE_SIGNATURE_def LIST_SIGNATURES_def PRINT_DIGEST_def EXPORT_PUBKEY_def
  EXPORT_CERT_def DAEMONIZE_def FLAG_LIST_END_def

lemmas model_defs =
  main_def before_switch_def startup_def initial_def action_switch_def finish_def
  parse_options_def parse_signum_def nss_setup_def digest_setup_def names_setup_def
  arena_strdup_def die_if_def die_def exit_with_def fprintf_stderr_def printf_stdout_def
  call_def call_on_def call_out_def upd_ctx_def upd_cms_def image_of_def
  open_input_def open_output_def open_rdonly_ok_def open_creat_trunc_def pe_rawfile_def
  pe_rawfile_size_def mapped_bytes_def ftruncate_def int_of_long_def
  open_for_input_def open_for_output_def open_rawsig_input_def open_sattr_input_def
  open_sig_input_def open_sattr_output_def open_sig_output_def open_pubkey_output_def
  open_cert_output_def close_side_file_def close_input_def close_output_def check_inputs_def
  print_digest_def generate_digest_def calculate_signature_space_def
  get_sigspace_extend_amount_def find_certificate_def could_not_find_certificate_def
  generate_signature_def insert_signature_def find_certificate_or_die_def
  calculate_and_allocate_def case_import_raw_signature_def case_export_sattrs_def
  case_import_signature_def case_export_pubkey_def case_export_cert_def
  case_export_signature_def case_remove_signature_def case_list_signatures_def
  case_print_digest_def case_sign_export_def case_sign_import_def case_daemonize_def
  incompatible_flags_def known_actions_def exit_code_def POPT_ERROR_ERRNO_def

lemmas run_defs =
  assemble_action_def env0_def cms0_def ctx0_def opts0_def fs0_def ctx_io_def spec_set_digest_parameters_def


subsection \<open>Sequences\<close>

lemma steps_Cons_continue: "steps (f # fs) s = continue fs (f s)"
  by (simp add: continue_def Let_def)

lemma continue_if:
  "continue fs (if c then a else b) = (if c then continue fs a else continue fs b)"
  by simp

lemma continue_option:
  "continue fs (case x of None \<Rightarrow> a | Some p \<Rightarrow> b p) =
     (case x of None \<Rightarrow> continue fs a | Some p \<Rightarrow> continue fs (b p))"
  by (simp split: option.splits)

lemma continue_running: "status t = Running \<Longrightarrow> continue fs t = steps fs t"
  by (simp add: continue_def)

lemma continue_exited: "status t = Exited k \<Longrightarrow> continue fs t = t"
  by (simp add: continue_def)

lemma continue_faulted: "status t = Faulted \<Longrightarrow> continue fs t = t"
  by (simp add: continue_def)

lemmas continue_simps =
  steps_Cons_continue continue_if continue_option continue_running continue_exited
  continue_faulted

declare steps.simps(2) [simp del]

lemma steps_inv:
  assumes "I s" and "\<And>f t. f \<in> set fs \<Longrightarrow> status t = Running \<Longrightarrow> I t \<Longrightarrow> I (f t)"
    and "status s = Running"
  shows "I (steps fs s)"
  using assms
proof (induction fs arbitrary: s)
  case Nil
  then show ?case by simp
next
  case (Cons f fs)
  have step: "I (f s)"
    using Cons.prems by simp
  show ?case
  proof (cases "status (f s) = Running")
    case True
    have "I (steps fs (f s))"
      using step True Cons.prems(2) by (intro Cons.IH) simp_all
    with True show ?thesis
      by (simp add: steps_Cons_continue continue_def)
  next
    case False
    with step show ?thesis
      by (simp add: steps_Cons_continue continue_def)
  qed
qed

lemma steps_running_Cons:
  assumes "status (steps (f # fs) s) = Running"
  shows "status (f s) = Running" and "steps (f # fs) s = steps fs (f s)"
  using assms by (auto simp: steps_Cons_continue continue_def split: if_splits)

lemmas basic_defs =
  die_if_def die_def exit_with_def fprintf_stderr_def printf_stdout_def call_def
  upd_ctx_def upd_cms_def

subsection \<open>The statements before the switch keep the frame\<close>

lemma frame_steps:
  assumes "status t = Running" and "frame c fs t"
    and "\<And>f u. f \<in> set gs \<Longrightarrow> status u = Running \<Longrightarrow> frame c fs u \<Longrightarrow> frame c fs (f u)"
  shows "frame c fs (steps gs t)"
  using assms(2) assms(3) assms(1) by (rule steps_inv)

lemma frame_die:
  "status t = Running \<Longrightarrow> frame c fs t \<Longrightarrow> m \<noteq> [] \<Longrightarrow> frame c fs (die m t)"
  by (simp add: frame_def basic_defs continue_simps)

lemma frame_die_if:
  "status t = Running \<Longrightarrow> frame c fs t \<Longrightarrow> m t \<noteq> [] \<Longrightarrow> frame c fs (die_if b m t)"
  by (simp add: die_if_def frame_die)

lemma frame_rc [simp]: "frame c fs (t\<lparr>rc := x\<rparr>) = frame c fs t"
  by (simp add: frame_def cong: status.case_cong)

lemma frame_signum [simp]:
  "frame c fs (upd_ctx (\<lambda>c. c\<lparr>signum := x\<rparr>) t) = frame c fs t"
  by (simp add: frame_def upd_ctx_def cong: status.case_cong)

lemma frame_names [simp]:
  "frame c fs (upd_cms (\<lambda>m. m\<lparr>tokenname := x\<rparr>) t) = frame c fs t"
  "frame c fs (upd_cms (\<lambda>m. m\<lparr>certname := x\<rparr>) t) = frame c fs t"
  "frame c fs (upd_cms (\<lambda>m. m\<lparr>selected_digest := y\<rparr>) t) = frame c fs t"
  by (simp_all add: frame_def upd_cms_def cong: status.case_cong)

lemma frame_nss [simp]:
  "frame c fs (call (Nss_init d) t) = frame c fs t"
  "frame c fs (call Nss_nodb_init t) = frame c fs t"
  by (simp_all add: frame_def call_def cong: status.case_cong)

lemma frame_help:
  "status t = Running \<Longrightarrow> frame c fs t \<Longrightarrow> frame c fs (exit_with 0 t)"
  by (simp add: frame_def exit_with_def)

lemma msg_nonempty [simp]: "nl \<noteq> []" "dq \<noteq> []"
  by (simp_all add: nl_def dq_def)

lemma status_basic [simp]:
  "status (call ev t) = status t"
  "status (upd_ctx g t) = status t"
  "status (upd_cms h t) = status t"
  "status (fprintf_stderr m t) = status t"
  "status (printf_stdout m t) = status t"
  "status (exit_with k t) = Exited k"
  by (simp_all add: basic_defs)

lemma frame_popt_help:
  "status t = Running \<Longrightarrow> frame c fs t \<Longrightarrow>
   frame c fs (steps [printf_stdout m, exit_with 0] t)"
  by (simp add: frame_def basic_defs continue_simps)

lemma frame_parse_options:
  "status t = Running \<Longrightarrow> frame c fs t \<Longrightarrow> frame c fs (parse_options e t)"
  unfolding parse_options_def
  by (rule frame_steps) (auto simp: frame_die_if frame_popt_help split: option.split)

lemma frame_parse_signum:
  "status t = Running \<Longrightarrow> frame c fs t \<Longrightarrow> frame c fs (parse_signum e l t)"
  unfolding parse_signum_def
  by (auto split: option.split intro!: frame_steps simp: frame_die_if)

lemma frame_names_setup:
  "status t = Running \<Longrightarrow> frame c fs t \<Longrightarrow> frame c fs (names_setup e l t)"
  unfolding names_setup_def
  by (rule frame_steps) (auto simp: frame_die_if)

lemma frame_digest_setup:
  "status t = Running \<Longrightarrow> frame c fs t \<Longrightarrow> frame c fs (digest_setup e l t)"
  by (simp add: digest_setup_def Let_def frame_def basic_defs continue_simps
      cong: status.case_cong)

lemma frame_nss_setup:
  "status t = Running \<Longrightarrow> frame c fs t \<Longrightarrow> frame c fs (nss_setup e l n t)"
  unfolding nss_setup_def Let_def
  by (auto intro!: frame_steps frame_die simp: frame_die_if)

lemma frame_startup:
  "status t = Running \<Longrightarrow> frame c fs t \<Longrightarrow> frame c fs (startup e l t)"
  unfolding startup_def
  by (rule frame_steps)
     (auto simp: frame_die_if frame_parse_options frame_parse_signum frame_nss_setup)

lemma frame_before_switch:
  "status t = Running \<Longrightarrow> frame c fs t \<Longrightarrow> frame c fs (before_switch e l t)"
  unfolding before_switch_def
  by (rule frame_steps)
     (auto simp: frame_startup frame_digest_setup frame_names_setup)

lemma frame_initial: "frame c fs (initial e c fs)"
  by (simp add: frame_def initial_def)

lemma status_initial [simp]: "status (initial e c fs) = Running"
  by (simp add: initial_def)

lemma frame_at_switch: "frame c fs (before_switch e l (initial e c fs))"
  by (simp add: frame_before_switch frame_initial)

subsection \<open>What the elementary statements touch\<close>

lemma die_fields [simp]:
  "ctxp (die m t) = ctxp t" "rc (die m t) = rc t" "files (die m t) = files t"
  "trace (die m t) = trace t" "stdout_text (die m t) = stdout_text t"
  "sigspace (die m t) = sigspace t"
  by (simp_all add: steps_Cons_continue continue_def basic_defs)

lemma status_die [simp]: "status t = Running \<Longrightarrow> status (die m t) = Exited 1"
  by (simp add: continue_simps basic_defs)

lemma stderr_die [simp]:
  "status t = Running \<Longrightarrow> stderr_text (die m t) = stderr_text t @ m"
  by (simp add: continue_simps basic_defs)

lemma die_if_fields [simp]:
  "ctxp (die_if b m t) = ctxp t" "rc (die_if b m t) = rc t" "files (die_if b m t) = files t"
  "trace (die_if b m t) = trace t" "stdout_text (die_if b m t) = stdout_text t"
  "sigspace (die_if b m t) = sigspace t"
  by (simp_all add: die_if_def)

lemma die_if_running:
  assumes "status t = Running" and "status (die_if b m t) = Running"
  shows "die_if b m t = t" and "\<not> b t"
  using assms by (auto simp: die_if_def split: if_splits)

lemma steps_keeps:
  assumes "status s = Running"
    and "\<And>f t. f \<in> set fs \<Longrightarrow> status t = Running \<Longrightarrow> g (f t) = g t"
  shows "g (steps fs s) = g s"
proof -
  have "g (steps fs s) = g s"
    by (rule steps_inv [where I = "\<lambda>t. g t = g s"]) (simp_all add: assms)
  then show ?thesis .
qed

lemma steps_keeps_to:
  assumes "status s = Running"
    and "\<And>f t. f \<in> set fs \<Longrightarrow> status t = Running \<Longrightarrow> g (f t) = g t"
    and "g s = x"
  shows "g (steps fs s) = x"
  using steps_keeps [of s fs g] assms by simp

lemma call_fields [simp]:
  "ctxp (call ev t) = ctxp t" "rc (call ev t) = rc t" "files (call ev t) = files t"
  "trace (call ev t) = trace t @ [ev]" "stdout_text (call ev t) = stdout_text t"
  "stderr_text (call ev t) = stderr_text t" "sigspace (call ev t) = sigspace t"
  by (simp_all add: call_def)

lemma upd_ctx_fields [simp]:
  "ctxp (upd_ctx g t) = g (ctxp t)" "rc (upd_ctx g t) = rc t" "files (upd_ctx g t) = files t"
  "trace (upd_ctx g t) = trace t" "stdout_text (upd_ctx g t) = stdout_text t"
  "stderr_text (upd_ctx g t) = stderr_text t" "sigspace (upd_ctx g t) = sigspace t"
  by (simp_all add: upd_ctx_def)

lemma upd_cms_fields [simp]:
  "cms_ctx (ctxp (upd_cms h t)) = h (cms_ctx (ctxp t))"
  "signum (ctxp (upd_cms h t)) = signum (ctxp t)"
  "rc (upd_cms h t) = rc t" "files (upd_cms h t) = files t"
  "trace (upd_cms h t) = trace t" "stdout_text (upd_cms h t) = stdout_text t"
  "stderr_text (upd_cms h t) = stderr_text t" "sigspace (upd_cms h t) = sigspace t"
  by (simp_all add: upd_cms_def)

subsection \<open>The context at the switch\<close>

lemma parse_options_ctxp: "status t = Running \<Longrightarrow> ctxp (parse_options e t) = ctxp t"
  unfolding parse_options_def
  by (rule steps_keeps) (auto simp: continue_simps basic_defs split: option.split)

lemma nss_setup_ctxp: "status t = Running \<Longrightarrow> ctxp (nss_setup e l n t) = ctxp t"
  unfolding nss_setup_def Let_def by (auto intro!: steps_keeps_to [where g = ctxp])

lemma parse_signum_running:
  assumes "status t = Running" and "status (parse_signum e l t) = Running"
  shows "signum (ctxp (parse_signum e l t)) =
           (case opt_signum l of None \<Rightarrow> signum (ctxp t) | Some str \<Rightarrow> int_of_long (fst (env_strtol e str)))"
    and "cms_ctx (ctxp (parse_signum e l t)) = cms_ctx (ctxp t)"
proof -
  have "signum (ctxp (parse_signum e l t)) =
           (case opt_signum l of None \<Rightarrow> signum (ctxp t) | Some str \<Rightarrow> int_of_long (fst (env_strtol e str)))
        \<and> cms_ctx (ctxp (parse_signum e l t)) = cms_ctx (ctxp t)"
  proof (cases "opt_signum l")
    case None
    then show ?thesis by (simp add: parse_signum_def)
  next
    case (Some str)
    have "ctxp (parse_signum e l t) =
            (ctxp t)\<lparr>signum := int_of_long (fst (env_strtol e str))\<rparr>"
      using assms(1) Some
      by (simp add: parse_signum_def steps_Cons_continue continue_def)
    with Some show ?thesis by simp
  qed
  then show "signum (ctxp (parse_signum e l t)) =
           (case opt_signum l of None \<Rightarrow> signum (ctxp t) | Some str \<Rightarrow> int_of_long (fst (env_strtol e str)))"
    and "cms_ctx (ctxp (parse_signum e l t)) = cms_ctx (ctxp t)"
    by simp_all
qed

lemma digest_setup_running:
  assumes "status t = Running" and "status (digest_setup e l t) = Running"
  shows "0 \<le> rc (digest_setup e l t)"
    and "ctxp (digest_setup e l t) =
           (ctxp t)\<lparr>cms_ctx := (cms_ctx (ctxp t))\<lparr>selected_digest := Some (opt_digest_name l)\<rparr>\<rparr>"
    and "rc (digest_setup e l t) = env_set_digest_parameters e (opt_digest_name l)"
proof -
  have neg: "\<not> env_set_digest_parameters e (opt_digest_name l) < 0"
  proof
    assume "env_set_digest_parameters e (opt_digest_name l) < 0"
    then have "status (digest_setup e l t) \<noteq> Running"
      using assms(1)
      by (simp add: digest_setup_def Let_def steps_Cons_continue continue_def)
    with assms(2) show False by simp
  qed
  then have eq: "digest_setup e l t =
      upd_cms (\<lambda>m. m\<lparr>selected_digest := Some (opt_digest_name l)\<rparr>)
        (t\<lparr>rc := env_set_digest_parameters e (opt_digest_name l)\<rparr>)"
    by (simp add: digest_setup_def Let_def)
  show "0 \<le> rc (digest_setup e l t)"
    using neg by (simp add: eq)
  show "rc (digest_setup e l t) = env_set_digest_parameters e (opt_digest_name l)"
    by (simp add: eq)
  show "ctxp (digest_setup e l t) =
           (ctxp t)\<lparr>cms_ctx := (cms_ctx (ctxp t))\<lparr>selected_digest := Some (opt_digest_name l)\<rparr>\<rparr>"
    by (simp add: eq upd_cms_def)
qed

lemma steps_next:
  "status (f t) = Running \<Longrightarrow> steps (f # fs) t = steps fs (f t)"
  by (simp add: steps_Cons_continue continue_def)

lemma steps_stop:
  "status (f t) \<noteq> Running \<Longrightarrow> steps (f # fs) t = f t"
  by (simp add: steps_Cons_continue continue_def)

lemma steps_die_if_running:
  assumes "status t = Running" and "status (steps (die_if b m # fs) t) = Running"
  shows "steps (die_if b m # fs) t = steps fs t" and "\<not> b t"
proof -
  have run: "status (die_if b m t) = Running"
    using assms(2) by (rule steps_running_Cons(1))
  have same: "die_if b m t = t" and nb: "\<not> b t"
    using assms(1) run by (rule die_if_running)+
  show "steps (die_if b m # fs) t = steps fs t"
    using run same by (simp add: steps_next)
  show "\<not> b t" by (rule nb)
qed

lemma names_setup_running:
  assumes "status t = Running" and "status (names_setup e l t) = Running"
  shows "names_setup e l t =
           upd_cms (\<lambda>m. m\<lparr>certname := arena_strdup e (opt_certname l)\<rparr>)
             (upd_cms (\<lambda>m. m\<lparr>tokenname := arena_strdup e (opt_tokenname l)\<rparr>) t)"
    and "sign (ctxp t) \<noteq> 0 \<Longrightarrow> arena_strdup e (opt_certname l) \<noteq> None"
proof -
  let ?u1 = "upd_cms (\<lambda>m. m\<lparr>tokenname := arena_strdup e (opt_tokenname l)\<rparr>)"
  let ?u2 = "upd_cms (\<lambda>m. m\<lparr>certname := arena_strdup e (opt_certname l)\<rparr>)"
  let ?d1 = "die_if (\<lambda>s. opt_tokenname l \<noteq> None \<and> tokenname (cms_ctx (ctxp s)) = None)
          (\<lambda>s. ''could not allocate token name: '' @ env_errtext e @ nl)"
  let ?d2 = "die_if (\<lambda>s. opt_certname l \<noteq> None \<and> certname (cms_ctx (ctxp s)) = None)
          (\<lambda>s. ''could not allocate certificate name: '' @ env_errtext e @ nl)"
  let ?d3 = "die_if (\<lambda>s. sign (ctxp s) \<noteq> 0 \<and> certname (cms_ctx (ctxp s)) = None)
          (\<lambda>s. ''pesign: signing requested but no certificate nickname provided'' @ nl)"
  have def: "names_setup e l t = steps [?u1, ?d1, ?u2, ?d2, ?d3] t"
    by (simp add: names_setup_def)
  have r1: "status (?u1 t) = Running"
    using assms(1) by simp
  have e1: "steps [?u1, ?d1, ?u2, ?d2, ?d3] t = steps [?d1, ?u2, ?d2, ?d3] (?u1 t)"
    using r1 by (rule steps_next)
  have run1: "status (steps [?d1, ?u2, ?d2, ?d3] (?u1 t)) = Running"
    using assms(2) def e1 by simp
  have e2: "steps [?d1, ?u2, ?d2, ?d3] (?u1 t) = steps [?u2, ?d2, ?d3] (?u1 t)"
    using r1 run1 by (rule steps_die_if_running(1))
  have r2: "status (?u2 (?u1 t)) = Running"
    using r1 by simp
  have e3: "steps [?u2, ?d2, ?d3] (?u1 t) = steps [?d2, ?d3] (?u2 (?u1 t))"
    using r2 by (rule steps_next)
  have run3: "status (steps [?d2, ?d3] (?u2 (?u1 t))) = Running"
    using run1 e2 e3 by simp
  have e4: "steps [?d2, ?d3] (?u2 (?u1 t)) = steps [?d3] (?u2 (?u1 t))"
    using r2 run3 by (rule steps_die_if_running(1))
  have run4: "status (steps [?d3] (?u2 (?u1 t))) = Running"
    using run3 e4 by simp
  have e5: "steps [?d3] (?u2 (?u1 t)) = steps [] (?u2 (?u1 t))"
    using r2 run4 by (rule steps_die_if_running(1))
  have n5: "\<not> (sign (ctxp (?u2 (?u1 t))) \<noteq> 0 \<and> certname (cms_ctx (ctxp (?u2 (?u1 t)))) = None)"
    using r2 run4 by (rule steps_die_if_running(2))
  show "names_setup e l t = ?u2 (?u1 t)"
    using def e1 e2 e3 e4 e5 by simp
  show "sign (ctxp t) \<noteq> 0 \<Longrightarrow> arena_strdup e (opt_certname l) \<noteq> None"
    using n5 by (simp add: upd_cms_def)
qed

lemma assemble_action_frame:
  "frame c fs t \<Longrightarrow> assemble_action l (ctxp t) = assemble_action l c"
  by (simp add: assemble_action_def frame_def)

lemma startup_running:
  assumes "status t = Running" and "status (startup e l t) = Running"
  shows "signum (ctxp (startup e l t)) =
           (case opt_signum l of None \<Rightarrow> signum (ctxp t) | Some str \<Rightarrow> int_of_long (fst (env_strtol e str)))"
    and "cms_ctx (ctxp (startup e l t)) = cms_ctx (ctxp t)"
proof -
  let ?d0 = "die_if (\<lambda>s. rc s < 0) (\<lambda>s. ''Could not initialize context: '' @ env_errtext e @ nl)"
  let ?n = "\<lambda>s. nss_setup e l (snd (assemble_action l (ctxp s))) s"
  have def: "startup e l t = steps [?d0, parse_options e, parse_signum e l, ?n] t"
    by (simp add: startup_def)
  have run0: "status (steps [?d0, parse_options e, parse_signum e l, ?n] t) = Running"
    using assms(2) def by simp
  have e0: "steps [?d0, parse_options e, parse_signum e l, ?n] t =
            steps [parse_options e, parse_signum e l, ?n] t"
    using assms(1) run0 by (rule steps_die_if_running(1))
  have run1: "status (steps [parse_options e, parse_signum e l, ?n] t) = Running"
    using run0 e0 by simp
  have r1: "status (parse_options e t) = Running"
    using run1 by (rule steps_running_Cons(1))
  have e1: "steps [parse_options e, parse_signum e l, ?n] t =
            steps [parse_signum e l, ?n] (parse_options e t)"
    using r1 by (rule steps_next)
  have run2: "status (steps [parse_signum e l, ?n] (parse_options e t)) = Running"
    using run1 e1 by simp
  have r2: "status (parse_signum e l (parse_options e t)) = Running"
    using run2 by (rule steps_running_Cons(1))
  have e2: "steps [parse_signum e l, ?n] (parse_options e t) =
            steps [?n] (parse_signum e l (parse_options e t))"
    using r2 by (rule steps_next)
  have run3: "status (steps [?n] (parse_signum e l (parse_options e t))) = Running"
    using run2 e2 by simp
  have r3: "status (?n (parse_signum e l (parse_options e t))) = Running"
    using run3 by (rule steps_running_Cons(1))
  have e3: "steps [?n] (parse_signum e l (parse_options e t)) =
            ?n (parse_signum e l (parse_options e t))"
    using r3 by (simp add: steps_next)
  have all: "startup e l t = ?n (parse_signum e l (parse_options e t))"
    using def e0 e1 e2 e3 by simp
  have c3: "ctxp (startup e l t) = ctxp (parse_signum e l (parse_options e t))"
    using r2 by (simp add: all nss_setup_ctxp)
  have c1: "ctxp (parse_options e t) = ctxp t"
    using assms(1) by (rule parse_options_ctxp)
  show "signum (ctxp (startup e l t)) =
           (case opt_signum l of None \<Rightarrow> signum (ctxp t) | Some str \<Rightarrow> int_of_long (fst (env_strtol e str)))"
    using parse_signum_running(1) [OF r1 r2] c1 c3 by (simp cong: option.case_cong)
  show "cms_ctx (ctxp (startup e l t)) = cms_ctx (ctxp t)"
    using parse_signum_running(2) [OF r1 r2] c1 c3 by simp
qed

lemma before_switch_running:
  assumes "status t = Running" and "status (before_switch e l t) = Running"
  shows "signum (ctxp (before_switch e l t)) =
           (case opt_signum l of None \<Rightarrow> signum (ctxp t) | Some str \<Rightarrow> int_of_long (fst (env_strtol e str)))"
    and "certname (cms_ctx (ctxp (before_switch e l t))) = arena_strdup e (opt_certname l)"
    and "selected_digest (cms_ctx (ctxp (before_switch e l t))) = Some (opt_digest_name l)"
    and "rc (before_switch e l t) = env_set_digest_parameters e (opt_digest_name l)"
    and "0 \<le> rc (before_switch e l t)"
    and "sign (ctxp (startup e l t)) \<noteq> 0 \<Longrightarrow> arena_strdup e (opt_certname l) \<noteq> None"
proof -
  let ?a = "startup e l t"
  let ?b = "digest_setup e l ?a"
  have def: "before_switch e l t = steps [startup e l, digest_setup e l, names_setup e l] t"
    by (simp add: before_switch_def)
  have run0: "status (steps [startup e l, digest_setup e l, names_setup e l] t) = Running"
    using assms(2) def by simp
  have ra: "status ?a = Running"
    using run0 by (rule steps_running_Cons(1))
  have ea: "steps [startup e l, digest_setup e l, names_setup e l] t =
            steps [digest_setup e l, names_setup e l] ?a"
    using ra by (rule steps_next)
  have run1: "status (steps [digest_setup e l, names_setup e l] ?a) = Running"
    using run0 ea by simp
  have rb: "status ?b = Running"
    using run1 by (rule steps_running_Cons(1))
  have eb: "steps [digest_setup e l, names_setup e l] ?a = steps [names_setup e l] ?b"
    using rb by (rule steps_next)
  have run2: "status (steps [names_setup e l] ?b) = Running"
    using run1 eb by simp
  have rc: "status (names_setup e l ?b) = Running"
    using run2 by (rule steps_running_Cons(1))
  have ec: "steps [names_setup e l] ?b = names_setup e l ?b"
    using rc by (simp add: steps_next)
  have all: "before_switch e l t = names_setup e l ?b"
    using def ea eb ec by simp
  note n = names_setup_running [OF rb rc]
  note d = digest_setup_running [OF ra rb]
  note s = startup_running [OF assms(1) ra]
  show "signum (ctxp (before_switch e l t)) =
           (case opt_signum l of None \<Rightarrow> signum (ctxp t) | Some str \<Rightarrow> int_of_long (fst (env_strtol e str)))"
    using s(1) by (simp add: all n(1) d(2) cong: option.case_cong)
  show "certname (cms_ctx (ctxp (before_switch e l t))) = arena_strdup e (opt_certname l)"
    by (simp add: all n(1))
  show "selected_digest (cms_ctx (ctxp (before_switch e l t))) = Some (opt_digest_name l)"
    by (simp add: all n(1) d(2))
  show "rc (before_switch e l t) = env_set_digest_parameters e (opt_digest_name l)"
    by (simp add: all n(1) d(3))
  show "0 \<le> rc (before_switch e l t)"
    using d(1) by (simp add: all n(1))
  show "sign (ctxp (startup e l t)) \<noteq> 0 \<Longrightarrow> arena_strdup e (opt_certname l) \<noteq> None"
    using n(2) by (simp add: d(2))
qed

lemma entered_before_switch:
  assumes "reaches_switch e l c fs"
  shows "entered e l c fs (before_switch e l (initial e c fs))"
proof -
  have run: "status (before_switch e l (initial e c fs)) = Running"
    using assms by (simp add: reaches_switch_def)
  have c0: "ctxp (initial e c fs) = c"
    by (simp add: initial_def)
  note b = before_switch_running [OF status_initial run]
  show ?thesis
    using run b(1-5) frame_at_switch [of c fs e l]
    by (simp add: entered_def requested_signum_def c0 cong: option.case_cong)
qed

lemma main_reached:
  assumes "reaches_switch e l c fs"
  shows "main e l c fs =
           steps [action_switch e l (the_action l c), finish e l]
             (before_switch e l (initial e c fs))"
proof -
  let ?s1 = "before_switch e l (initial e c fs)"
  have run: "status ?s1 = Running"
    using assms by (simp add: reaches_switch_def)
  have act: "fst (assemble_action l (ctxp ?s1)) = the_action l c"
    using frame_at_switch [of c fs e l] by (simp add: assemble_action_frame the_action_def)
  have "main e l c fs =
          steps [\<lambda>s. action_switch e l (fst (assemble_action l (ctxp s))) s, finish e l] ?s1"
    using run by (simp add: main_def steps_next)
  also have "\<dots> = steps [action_switch e l (the_action l c), finish e l] ?s1"
    by (simp add: steps_Cons_continue act)
  finally show ?thesis .
qed

lemma main_not_reached:
  assumes "\<not> reaches_switch e l c fs"
  shows "main e l c fs = before_switch e l (initial e c fs)"
  using assms by (simp add: main_def reaches_switch_def steps_stop)

lemma file_events_nss: "list_all is_nss_event tr \<Longrightarrow> file_events tr = []"
proof (induction tr)
  case Nil
  then show ?case by (simp add: file_events_def)
next
  case (Cons ev tr)
  then show ?case by (cases ev) (simp_all add: file_events_def)
qed

lemma entered_fields:
  assumes "entered e l c fs s"
  shows "status s = Running" and "files s = fs" and "stderr_text s = []"
    and "stdout_text s = []" and "file_events (trace s) = []"
    and "infile (ctxp s) = infile c" and "outfile (ctxp s) = outfile c"
  using assms by (auto simp: entered_def frame_def file_events_nss)

lemma check_inputs_same:
  "infile (ctxp s) = Some p \<Longrightarrow> outfile (ctxp s) = Some p \<Longrightarrow>
   check_inputs s = die (''pesign: in-place file editing is not yet supported'' @ nl) s"
  by (simp add: check_inputs_def)

lemma in_place_pipelines:
  assumes "a \<in> {IMPORT_RAW_SIGNATURE OR IMPORT_SATTRS, IMPORT_SIGNATURE, REMOVE_SIGNATURE,
                 IMPORT_SIGNATURE OR GENERATE_SIGNATURE}"
    and "status s = Running" and "infile (ctxp s) = Some p" and "outfile (ctxp s) = Some p"
  shows "steps [action_switch e l a, finish e l] s =
           die (''pesign: in-place file editing is not yet supported'' @ nl) s"
proof -
  let ?d = "die (''pesign: in-place file editing is not yet supported'' @ nl) s"
  have stop: "status (check_inputs s) \<noteq> Running" and ci: "check_inputs s = ?d"
    using assms(2-4) by (simp_all add: check_inputs_same)
  have "action_switch e l a s = ?d"
    using assms(1) stop ci
    by (auto simp: action_switch_def flag_defs case_import_raw_signature_def
        case_import_signature_def case_remove_signature_def case_sign_import_def steps_stop)
  then show ?thesis
    using assms(2) by (simp add: steps_stop)
qed

subsection \<open>Helpers that are handed a file, and a choice of statements\<close>

lemma trace_call_on:
  "trace (call_on e ev p t) = trace t @ [ev]"
  "trace (call_out e ev t) = trace t @ [ev]"
  by (simp_all add: call_out_def call_on_def Let_def split: option.splits)

lemma status_call_on:
  "status (call_on e ev p t) = status t"
  "status (call_out e ev t) = status t"
  by (simp_all add: call_out_def call_on_def Let_def call_def split: option.splits)


subsection \<open>In-place editing\<close>

lemma unreached_fields:
  assumes "\<not> reaches_switch e l c fs"
  shows "files (main e l c fs) = fs" and "file_events (trace (main e l c fs)) = []"
  using frame_at_switch [of c fs e l] main_not_reached [OF assms]
  by (simp_all add: frame_def file_events_nss)

text \<open>
  Claim C9, as the code has it. The four actions that read an input image and write an
  output image are raw-signature import, signature import, signature removal and
  sign-and-embed; each begins with \<^verbatim>\<open>check_inputs\<close>. When the input path and the output
  path are the same string, no file is opened, created or changed, whatever else the run
  does; a run that reaches the action switch ends there with exit status 1 and the message
  that in-place editing is not supported.
\<close>

theorem in_place_editing_rejected:
  assumes "the_action l c \<in> {IMPORT_RAW_SIGNATURE OR IMPORT_SATTRS, IMPORT_SIGNATURE,
             REMOVE_SIGNATURE, IMPORT_SIGNATURE OR GENERATE_SIGNATURE}"
    and "infile c = Some p" and "outfile c = Some p"
  shows "files (main e l c fs) = fs \<and> file_events (trace (main e l c fs)) = [] \<and>
         (reaches_switch e l c fs \<longrightarrow>
            exit_code (main e l c fs) = Some 1 \<and>
            stderr_text (main e l c fs) =
              ''pesign: in-place file editing is not yet supported'' @ nl)"
proof (cases "reaches_switch e l c fs")
  case True
  let ?s = "before_switch e l (initial e c fs)"
  note f = entered_fields [OF entered_before_switch [OF True]]
  have "main e l c fs = die (''pesign: in-place file editing is not yet supported'' @ nl) ?s"
    using assms f(1,6,7) by (simp add: main_reached [OF True] in_place_pipelines)
  then show ?thesis
    using f by (simp add: exit_code_def)
next
  case False
  then show ?thesis
    by (simp add: unreached_fields)
qed

theorem in_place_editing_rejected_witness:
  "the_action opts_remove ctx_same = REMOVE_SIGNATURE \<and>
   reaches_switch env0 opts_remove ctx_same fs0 \<and>
   exit_code (main env0 opts_remove ctx_same fs0) = Some 1 \<and>
   files (main env0 opts_remove ctx_same fs0) = fs0 \<and>
   file_events (trace (main env0 opts_remove ctx_same fs0)) = [] \<and>
   stderr_text (main env0 opts_remove ctx_same fs0) =
     ''pesign: in-place file editing is not yet supported'' @ nl"
proof -
  have a: "the_action opts_remove ctx_same = REMOVE_SIGNATURE"
    by (simp add: the_action_def opts_remove_def ctx_same_def run_defs flag_defs)
  have r: "reaches_switch env0 opts_remove ctx_same fs0"
    by (simp add: reaches_switch_def model_defs continue_simps opts_remove_def ctx_same_def
        run_defs flag_defs)
  have i: "infile ctx_same = Some ''in.efi''" and o: "outfile ctx_same = Some ''in.efi''"
    by (simp_all add: ctx_same_def run_defs)
  show ?thesis
    using in_place_editing_rejected [of opts_remove ctx_same "''in.efi''" env0 fs0] a r i o
    by simp
qed

text \<open>
  Claim C9 as stated fails in two ways. With equal paths and the digest name \<^verbatim>\<open>help\<close>
  the run ends before the switch with status 0. And only equal strings are rejected:
  with \<^verbatim>\<open>-i in.efi -o ./in.efi --force\<close>, two strings that name one file,
  \<^verbatim>\<open>check_inputs\<close> passes, the file is emptied when the output is opened, and the removal
  runs to the end with status 0 on an image of zeros.
\<close>

theorem in_place_editing_counterexample:
  "the_action opts_remove_help ctx_same = REMOVE_SIGNATURE \<and>
   infile ctx_same = Some ''in.efi'' \<and> outfile ctx_same = Some ''in.efi'' \<and>
   exit_code (main env0 opts_remove_help ctx_same fs0) = Some 0 \<and>
   stderr_text (main env0 opts_remove_help ctx_same fs0) = [] \<and>
   the_action opts_remove_0 ctx_alias = REMOVE_SIGNATURE \<and>
   env_inode env_one_sig ''in.efi'' = env_inode env_one_sig ''./in.efi'' \<and>
   exit_code (main env_one_sig opts_remove_0 ctx_alias fs0) = Some 0 \<and>
   trace (main env_one_sig opts_remove_0 ctx_alias fs0) =
     [Nss_nodb_init, Open_rdonly ''in.efi'', Open_creat_trunc ''./in.efi'',
      Write_raw ''./in.efi'', Pe_clearcert, Remove_signature 0, Finalize_signatures,
      Pe_update] \<and>
   fs0 (env_inode env_one_sig ''in.efi'') = Some [77, 90, 0, 1] \<and>
   files (main env_one_sig opts_remove_0 ctx_alias fs0) (env_inode env_one_sig ''in.efi'') =
     Some [0, 0, 0, 0]"
  by (simp add: the_action_def model_defs continue_simps opts_remove_help_def
      opts_remove_0_def opts_remove_def ctx_same_def ctx_alias_def env_one_sig_def
      run_defs flag_defs)

subsection \<open>Action combinations outside the switch\<close>

lemma print_flag_name_values:
  "print_flag_name 1 = ''hash ''" "print_flag_name 2 = ''sign ''"
  "print_flag_name 4 = ''import-raw-sig ''" "print_flag_name 8 = ''import-sig ''"
  "print_flag_name 16 = ''import-sattrs ''" "print_flag_name 32 = ''export-sattrs ''"
  "print_flag_name 64 = ''export-sig ''" "print_flag_name 128 = ''remove ''"
  "print_flag_name 256 = ''list ''" "print_flag_name 512 = []"
  "print_flag_name 1024 = ''export-pubkey ''" "print_flag_name 2048 = ''export-cert ''"
  "print_flag_name 4096 = ''daemonize ''"
  by (simp_all add: print_flag_name_def flag_names_def flag_defs)

lemma incompatible_flags_loop_names:
  "incompatible_flags_loop a 1 =
     concat (map (\<lambda>(f, n). if a AND f \<noteq> 0 then n @ '' '' else []) named_flags)"
  apply (simp add: named_flags_def flag_defs split del: if_split)
  apply (simp only: print_flag_name_values append.simps if_cancel)
  done

lemma action_switch_default:
  "a \<notin> set known_actions \<Longrightarrow> action_switch e l a = die (incompatible_flags a)"
  by (simp add: action_switch_def known_actions_def)

text \<open>
  Claim C4, as the code has it. When the assembled action is none of the thirteen values
  the switch knows, no file is opened, created, truncated or written, whatever else the
  run does; a run that reaches the switch takes the default case: it prints
  \<^verbatim>\<open>Incompatible flags (0x...): \<close> followed by the name of every named flag that is
  set, and exits with status 1.
\<close>

theorem incompatible_actions_rejected:
  assumes "the_action l c \<notin> set known_actions"
  shows "files (main e l c fs) = fs \<and> file_events (trace (main e l c fs)) = [] \<and>
         (reaches_switch e l c fs \<longrightarrow>
            exit_code (main e l c fs) = Some 1 \<and>
            stderr_text (main e l c fs) =
              ''Incompatible flags (0x'' @ printf_08x (the_action l c) @ ''): '' @
              concat (map (\<lambda>(f, n). if the_action l c AND f \<noteq> 0 then n @ '' '' else [])
                        named_flags) @ nl)"
proof (cases "reaches_switch e l c fs")
  case True
  let ?s = "before_switch e l (initial e c fs)"
  note f = entered_fields [OF entered_before_switch [OF True]]
  have m: "main e l c fs = die (incompatible_flags (the_action l c)) ?s"
    using assms f(1) by (simp add: main_reached [OF True] action_switch_default steps_stop)
  have "stderr_text (main e l c fs) = incompatible_flags (the_action l c)"
    using f(1,3) by (simp add: m)
  then have msg: "stderr_text (main e l c fs) =
              ''Incompatible flags (0x'' @ printf_08x (the_action l c) @ ''): '' @
              concat (map (\<lambda>(f, n). if the_action l c AND f \<noteq> 0 then n @ '' '' else [])
                        named_flags) @ nl"
    by (simp only: incompatible_flags_def incompatible_flags_loop_names)
  have rest: "files (main e l c fs) = fs \<and> file_events (trace (main e l c fs)) = [] \<and>
      exit_code (main e l c fs) = Some 1"
    using f(1,2,5) by (simp add: m exit_code_def)
  show ?thesis
    using msg rest by blast
next
  case False
  then show ?thesis
    by (simp add: unreached_fields)
qed

theorem incompatible_actions_rejected_witness:
  "the_action opts_cert ctx_hash_sign \<notin> set known_actions \<and>
   reaches_switch env0 opts_cert ctx_hash_sign fs0 \<and>
   files (main env0 opts_cert ctx_hash_sign fs0) = fs0 \<and>
   file_events (trace (main env0 opts_cert ctx_hash_sign fs0)) = [] \<and>
   exit_code (main env0 opts_cert ctx_hash_sign fs0) = Some 1 \<and>
   stderr_text (main env0 opts_cert ctx_hash_sign fs0) =
     ''Incompatible flags (0x0000020b): hash sign import-sig '' @ nl"
proof -
  have a: "the_action opts_cert ctx_hash_sign = 0x20b"
    by (simp add: the_action_def opts_cert_def ctx_hash_sign_def run_defs flag_defs)
  have k: "the_action opts_cert ctx_hash_sign \<notin> set known_actions"
    by (simp add: a known_actions_def flag_defs)
  have r: "reaches_switch env0 opts_cert ctx_hash_sign fs0"
    by (simp add: reaches_switch_def model_defs continue_simps opts_cert_def
        ctx_hash_sign_def run_defs flag_defs)
  have h: "printf_08x 0x20b = ''0000020b''"
    by (simp add: printf_08x_def hex_digit_def)
  show ?thesis
    using incompatible_actions_rejected [OF k, of env0 fs0] k r
    by (simp add: a h named_flags_def flag_defs)
qed

text \<open>
  Claim C4 as stated fails where a check before the switch ends the run.
  \<^verbatim>\<open>--hash --sign\<close> without a certificate nickname is not a known combination, and the
  run exits with status 1 on the message that signing needs a nickname, with no list of
  flags; with a nickname and the digest name \<^verbatim>\<open>help\<close> it exits with status 0.
\<close>

theorem incompatible_actions_counterexample:
  "the_action opts0 ctx_hash_sign \<notin> set known_actions \<and>
   exit_code (main env0 opts0 ctx_hash_sign fs0) = Some 1 \<and>
   stderr_text (main env0 opts0 ctx_hash_sign fs0) =
     ''pesign: signing requested but no certificate nickname provided'' @ nl \<and>
   the_action opts_cert_help ctx_hash_sign \<notin> set known_actions \<and>
   exit_code (main env0 opts_cert_help ctx_hash_sign fs0) = Some 0 \<and>
   stderr_text (main env0 opts_cert_help ctx_hash_sign fs0) = []"
  by (simp add: the_action_def model_defs continue_simps opts_cert_help_def opts_cert_def
      ctx_hash_sign_def run_defs flag_defs)

subsection \<open>Signing with a certificate that cannot be found\<close>

lemma before_lookup_nss:
  "list_all is_nss_event tr \<Longrightarrow> before_lookup (tr @ ys) = tr @ before_lookup ys"
proof (induction tr)
  case Nil
  then show ?case by simp
next
  case (Cons ev tr)
  then show ?case by (cases ev) (simp_all add: before_lookup_def)
qed

lemma file_events_append [simp]: "file_events (a @ b) = file_events a @ file_events b"
  by (simp add: file_events_def)

lemmas sign_import_defs =
  action_switch_def flag_defs case_sign_import_def check_inputs_def
  find_certificate_or_die_def find_certificate_def die_if_def could_not_find_certificate_def

lemma sign_import_no_cert:
  assumes "status s = Running"
    and "env_find_certificate e (certname (cms_ctx (ctxp s))) 1 < 0"
  shows "status (steps [action_switch e l (IMPORT_SIGNATURE OR GENERATE_SIGNATURE), finish e l] s)
           = Exited 1"
    and "files (steps [action_switch e l (IMPORT_SIGNATURE OR GENERATE_SIGNATURE), finish e l] s)
           = files s"
    and "file_events (trace (steps [action_switch e l (IMPORT_SIGNATURE OR GENERATE_SIGNATURE),
           finish e l] s)) = file_events (trace s)"
  using assms
  by (simp_all add: sign_import_defs continue_simps file_events_def split: option.split)

lemma sign_import_no_cert_message:
  assumes "status s = Running"
    and "env_find_certificate e (certname (cms_ctx (ctxp s))) 1 < 0"
    and "infile (ctxp s) = Some i" and "outfile (ctxp s) = Some out" and "i \<noteq> out"
  shows "stderr_text (steps [action_switch e l (IMPORT_SIGNATURE OR GENERATE_SIGNATURE),
           finish e l] s) =
         stderr_text s @ ''pesign: Could not find certificate '' @
           (case certname (cms_ctx (ctxp s)) of None \<Rightarrow> ''(null)'' | Some n \<Rightarrow> n) @ nl"
    and "trace (steps [action_switch e l (IMPORT_SIGNATURE OR GENERATE_SIGNATURE),
           finish e l] s) = trace s @ [Find_certificate 1]"
  using assms
  by (simp_all add: sign_import_defs continue_simps)

text \<open>
  Claim C2, as the code has it. In the sign-and-embed action, when the certificate store
  does not resolve the nickname, no file is opened or created and the files on disk are
  as before, whatever else the run does. A run that reaches the switch exits with status
  1; when moreover the input and output paths are given and differ, so that
  \<^verbatim>\<open>check_inputs\<close> passes, the certificate lookup is the only call made and the message is
  \<^verbatim>\<open>pesign: Could not find certificate\<close> with the nickname.
\<close>

theorem sign_unresolved_certificate:
  assumes "the_action l c = (IMPORT_SIGNATURE OR GENERATE_SIGNATURE)"
    and "env_find_certificate e (arena_strdup e (opt_certname l)) 1 < 0"
  shows "files (main e l c fs) = fs \<and> file_events (trace (main e l c fs)) = [] \<and>
         (reaches_switch e l c fs \<longrightarrow>
            exit_code (main e l c fs) = Some 1 \<and>
            (\<forall>i out. infile c = Some i \<and> outfile c = Some out \<and> i \<noteq> out \<longrightarrow>
               stderr_text (main e l c fs) =
                 ''pesign: Could not find certificate '' @
                 (case arena_strdup e (opt_certname l) of None \<Rightarrow> ''(null)'' | Some n \<Rightarrow> n) @ nl
               \<and> before_lookup (trace (main e l c fs)) @ [Find_certificate 1] =
                   trace (main e l c fs)))"
proof (cases "reaches_switch e l c fs")
  case True
  let ?s = "before_switch e l (initial e c fs)"
  have ent: "entered e l c fs ?s"
    using True by (rule entered_before_switch)
  note f = entered_fields [OF ent]
  have cn: "certname (cms_ctx (ctxp ?s)) = arena_strdup e (opt_certname l)"
    using ent by (simp add: entered_def)
  have nss: "list_all is_nss_event (trace ?s)"
    using ent by (simp add: entered_def frame_def)
  have fc: "env_find_certificate e (certname (cms_ctx (ctxp ?s))) 1 < 0"
    using assms(2) cn by simp
  have m: "main e l c fs =
             steps [action_switch e l (IMPORT_SIGNATURE OR GENERATE_SIGNATURE), finish e l] ?s"
    using assms(1) by (simp add: main_reached [OF True])
  note p = sign_import_no_cert [OF f(1) fc, of l]
  have basic: "files (main e l c fs) = fs \<and> file_events (trace (main e l c fs)) = [] \<and>
      exit_code (main e l c fs) = Some 1"
    using p f(2,5) by (simp add: m exit_code_def)
  have msg: "stderr_text (main e l c fs) =
                 ''pesign: Could not find certificate '' @
                 (case arena_strdup e (opt_certname l) of None \<Rightarrow> ''(null)'' | Some n \<Rightarrow> n) @ nl
             \<and> before_lookup (trace (main e l c fs)) @ [Find_certificate 1] =
                   trace (main e l c fs)"
    if "infile c = Some i" and "outfile c = Some out" and "i \<noteq> out" for i out
  proof -
    have i: "infile (ctxp ?s) = Some i" and o: "outfile (ctxp ?s) = Some out"
      using that f(6,7) by simp_all
    note q = sign_import_no_cert_message [OF f(1) fc i o that(3), of l]
    show ?thesis
      using q f(3) nss cn
      by (simp add: m before_lookup_nss) (simp add: before_lookup_def)
  qed
  show ?thesis
    using basic msg by blast
next
  case False
  then show ?thesis
    by (simp add: unreached_fields)
qed

theorem sign_unresolved_certificate_witness:
  "the_action opts_cert ctx_sign = (IMPORT_SIGNATURE OR GENERATE_SIGNATURE) \<and>
   env_find_certificate env_no_cert (arena_strdup env_no_cert (opt_certname opts_cert)) 1 < 0 \<and>
   reaches_switch env_no_cert opts_cert ctx_sign fs0 \<and>
   files (main env_no_cert opts_cert ctx_sign fs0) = fs0 \<and>
   fs0 (env_inode env_no_cert ''out.efi'') = None \<and>
   exit_code (main env_no_cert opts_cert ctx_sign fs0) = Some 1 \<and>
   stderr_text (main env_no_cert opts_cert ctx_sign fs0) =
     ''pesign: Could not find certificate signer'' @ nl \<and>
   trace (main env_no_cert opts_cert ctx_sign fs0) =
     [Nss_init ''/etc/pki/pesign'', Find_certificate 1]"
proof -
  have a: "the_action opts_cert ctx_sign = (IMPORT_SIGNATURE OR GENERATE_SIGNATURE)"
    by (simp add: the_action_def opts_cert_def ctx_sign_def run_defs flag_defs)
  have n: "env_find_certificate env_no_cert
             (arena_strdup env_no_cert (opt_certname opts_cert)) 1 < 0"
    by (simp add: env_no_cert_def)
  have r: "reaches_switch env_no_cert opts_cert ctx_sign fs0"
    by (simp add: reaches_switch_def model_defs continue_simps opts_cert_def
        ctx_sign_def env_no_cert_def run_defs flag_defs)
  have t: "trace (main env_no_cert opts_cert ctx_sign fs0) =
             [Nss_init ''/etc/pki/pesign'', Find_certificate 1]"
    by (simp add: model_defs continue_simps opts_cert_def
        ctx_sign_def env_no_cert_def run_defs flag_defs)
  have io: "infile ctx_sign = Some ''in.efi'' \<and> outfile ctx_sign = Some ''out.efi''"
    by (simp add: ctx_sign_def run_defs)
  have s: "arena_strdup env_no_cert (opt_certname opts_cert) = Some ''signer''"
    by (simp add: arena_strdup_def env_no_cert_def opts_cert_def run_defs)
  show ?thesis
    using sign_unresolved_certificate [OF a n, of fs0] a n r t io s
    by (simp add: fs0_def env_no_cert_def env0_def)
qed

text \<open>
  Claim C2 as stated fails where the run ends before the certificate is looked up.
  \<^verbatim>\<open>check_inputs\<close> comes first in the case: with equal input and output paths the run
  exits on the in-place message and the store is never asked. With the digest name
  \<^verbatim>\<open>help\<close> the run ends before the switch with status 0.
\<close>

theorem sign_unresolved_certificate_counterexample:
  "the_action opts_cert ctx_sign_same = (IMPORT_SIGNATURE OR GENERATE_SIGNATURE) \<and>
   env_find_certificate env_no_cert (Some ''signer'') 1 < 0 \<and>
   exit_code (main env_no_cert opts_cert ctx_sign_same fs0) = Some 1 \<and>
   stderr_text (main env_no_cert opts_cert ctx_sign_same fs0) =
     ''pesign: in-place file editing is not yet supported'' @ nl \<and>
   trace (main env_no_cert opts_cert ctx_sign_same fs0) = [Nss_init ''/etc/pki/pesign''] \<and>
   the_action opts_cert_help ctx_sign = (IMPORT_SIGNATURE OR GENERATE_SIGNATURE) \<and>
   exit_code (main env_no_cert opts_cert_help ctx_sign fs0) = Some 0 \<and>
   stderr_text (main env_no_cert opts_cert_help ctx_sign fs0) = []"
  by (simp add: the_action_def model_defs continue_simps opts_cert_help_def opts_cert_def
      ctx_sign_same_def ctx_same_def ctx_sign_def env_no_cert_def run_defs flag_defs)

subsection \<open>Signature indices out of range\<close>










subsection \<open>The index check on import, and the digest names\<close>

text \<open>
  Claim C7, on the code. The import case compares the index with
  \<^verbatim>\<open>num_signatures + 1\<close> before \<^verbatim>\<open>open_input\<close> has parsed the image, when the count is
  still the one \<^verbatim>\<open>pesign_context_new\<close> left (0 here). Index 2 for an image with three
  signatures is refused although it lies in \<open>[0, 3]\<close>, and the image is never opened;
  index 1 for an image without signatures passes the check and reaches
  \<^verbatim>\<open>insert_signature\<close>.
\<close>

theorem import_index_check_before_parse:
  "the_action opts_signum_2 ctx_import = IMPORT_SIGNATURE \<and>
   requested_signum env_three_sigs opts_signum_2 ctx_import = 2 \<and>
   snd (env_parse_signatures env_three_sigs [77, 90, 0, 1]) = 3 \<and>
   exit_code (main env_three_sigs opts_signum_2 ctx_import fs_sig) = Some 1 \<and>
   stderr_text (main env_three_sigs opts_signum_2 ctx_import fs_sig) =
     ''Invalid signature number.'' @ nl \<and>
   trace (main env_three_sigs opts_signum_2 ctx_import fs_sig) = [Nss_nodb_init] \<and>
   the_action opts_signum_1 ctx_import = IMPORT_SIGNATURE \<and>
   requested_signum env0 opts_signum_1 ctx_import = 1 \<and>
   snd (env_parse_signatures env0 [77, 90, 0, 1]) = 0 \<and>
   exit_code (main env0 opts_signum_1 ctx_import fs_sig) = Some 0 \<and>
   trace (main env0 opts_signum_1 ctx_import fs_sig) =
     [Nss_nodb_init, Open_rdonly ''in.efi'', Open_creat_trunc ''out.efi'',
      Write_raw ''out.efi'', Pe_clearcert, Open_rdonly ''sig.p7'', Parse_signature,
      Get_sigspace_extend_amount, Allocate_signature_space 8, Check_signature_space,
      Insert_signature 1, Finalize_signatures, Pe_update]"
  by (simp add: the_action_def requested_signum_def model_defs continue_simps
      opts_signum_2_def opts_signum_1_def ctx_import_def env_three_sigs_def fs_sig_def
      run_defs flag_defs)

lemma digest_setup_rejects:
  assumes "status t = Running" and "env_set_digest_parameters e (opt_digest_name l) < 0"
  shows "status (digest_setup e l t) = Exited (if opt_digest_name l = ''help'' then 0 else 1)"
    and "stderr_text (digest_setup e l t) =
           stderr_text t @ (if opt_digest_name l = ''help'' then []
              else ''Digest '' @ dq @ opt_digest_name l @ dq @ '' not found.'' @ nl)"
    and "files (digest_setup e l t) = files t"
  using assms
  by (simp_all add: digest_setup_def Let_def continue_simps basic_defs)

lemma digest_setup_accepts:
  assumes "status t = Running" and "\<not> env_set_digest_parameters e (opt_digest_name l) < 0"
  shows "status (digest_setup e l t) = Running"
  using assms
  by (simp add: digest_setup_def Let_def)

lemma main_digest_rejected:
  assumes "status (startup e l (initial e c fs)) = Running"
    and "env_set_digest_parameters e (opt_digest_name l) < 0"
  shows "main e l c fs = digest_setup e l (startup e l (initial e c fs))"
proof -
  let ?a = "startup e l (initial e c fs)"
  have stop: "status (digest_setup e l ?a) \<noteq> Running"
    using digest_setup_rejects(1) [OF assms] by simp
  have "before_switch e l (initial e c fs) = digest_setup e l ?a"
    using assms(1) stop by (simp add: before_switch_def steps_next steps_stop)
  then show ?thesis
    using stop by (simp add: main_def steps_stop)
qed

text \<open>
  Claim C8, as the code has it, with \<^verbatim>\<open>set_digest_parameters\<close> as the spec describes it.
  In a run that gets as far as the digest setup, one of the four names lets the run go
  on; any other name ends it there: \<^verbatim>\<open>help\<close> with exit status 0 and no message, every
  other name with exit status 1 and the message \<^verbatim>\<open>Digest "name" not found.\<close>
\<close>

theorem unknown_digest_name:
  assumes "env_set_digest_parameters e = spec_set_digest_parameters"
    and "status (startup e l (initial e c fs)) = Running"
  shows "(opt_digest_name l \<in> set [''sha1'', ''sha256'', ''sha384'', ''sha512''] \<longrightarrow>
            status (digest_setup e l (startup e l (initial e c fs))) = Running) \<and>
         (opt_digest_name l \<notin> set [''sha1'', ''sha256'', ''sha384'', ''sha512''] \<longrightarrow>
            exit_code (main e l c fs) =
              Some (if opt_digest_name l = ''help'' then 0 else 1) \<and>
            stderr_text (main e l c fs) =
              (if opt_digest_name l = ''help'' then []
               else ''Digest '' @ dq @ opt_digest_name l @ dq @ '' not found.'' @ nl) \<and>
            files (main e l c fs) = fs)"
proof -
  let ?a = "startup e l (initial e c fs)"
  have fr: "frame c fs ?a"
    by (simp add: frame_startup frame_initial)
  have err: "stderr_text ?a = []" and fi: "files ?a = fs"
    using fr assms(2) by (simp_all add: frame_def)
  have ok: "status (digest_setup e l ?a) = Running"
    if "opt_digest_name l \<in> set [''sha1'', ''sha256'', ''sha384'', ''sha512'']"
  proof -
    have "\<not> env_set_digest_parameters e (opt_digest_name l) < 0"
      using that by (simp add: assms(1) spec_set_digest_parameters_def)
    with assms(2) show ?thesis
      by (rule digest_setup_accepts)
  qed
  have bad: "exit_code (main e l c fs) =
              Some (if opt_digest_name l = ''help'' then 0 else 1) \<and>
            stderr_text (main e l c fs) =
              (if opt_digest_name l = ''help'' then []
               else ''Digest '' @ dq @ opt_digest_name l @ dq @ '' not found.'' @ nl) \<and>
            files (main e l c fs) = fs"
    if "opt_digest_name l \<notin> set [''sha1'', ''sha256'', ''sha384'', ''sha512'']"
  proof -
    have neg: "env_set_digest_parameters e (opt_digest_name l) < 0"
      using that by (simp add: assms(1) spec_set_digest_parameters_def)
    note d = digest_setup_rejects [OF assms(2) neg]
    show ?thesis
      using d err fi
      by (simp add: main_digest_rejected [OF assms(2) neg] exit_code_def)
  qed
  show ?thesis
    using ok bad by blast
qed

theorem unknown_digest_name_witness:
  "env_set_digest_parameters env0 = spec_set_digest_parameters \<and>
   status (startup env0 opts_md5 (initial env0 ctx0 fs0)) = Running \<and>
   exit_code (main env0 opts_md5 ctx0 fs0) = Some 1 \<and>
   stderr_text (main env0 opts_md5 ctx0 fs0) = ''Digest '' @ dq @ ''md5'' @ dq @ '' not found.'' @ nl \<and>
   status (digest_setup env0 opts0 (startup env0 opts0 (initial env0 ctx0 fs0))) = Running"
proof -
  have a: "env_set_digest_parameters env0 = spec_set_digest_parameters"
    by (simp add: env0_def)
  have s1: "status (startup env0 opts_md5 (initial env0 ctx0 fs0)) = Running"
    by (simp add: model_defs continue_simps opts_md5_def run_defs flag_defs)
  have s2: "status (startup env0 opts0 (initial env0 ctx0 fs0)) = Running"
    by (simp add: model_defs continue_simps run_defs flag_defs)
  have n1: "opt_digest_name opts_md5 = ''md5''" and n2: "opt_digest_name opts0 = ''sha256''"
    by (simp_all add: opts_md5_def opts0_def)
  show ?thesis
    using unknown_digest_name [OF a s1] unknown_digest_name [OF a s2]
      a s1 n1 n2
    by simp
qed

text \<open>
  Claim C8 as stated fails for the name \<^verbatim>\<open>help\<close>: it is none of the four names, and
  the run ends with exit status 0 and without the message.
\<close>

theorem unknown_digest_name_counterexample:
  "''help'' \<notin> set [''sha1'', ''sha256'', ''sha384'', ''sha512''] \<and>
   opt_digest_name opts_help = ''help'' \<and>
   exit_code (main env0 opts_help ctx0 fs0) = Some 0 \<and>
   stderr_text (main env0 opts_help ctx0 fs0) = []"
  by (simp add: model_defs continue_simps opts_help_def run_defs flag_defs)

subsection \<open>The printed digest\<close>

lemma signing_events_append [simp]:
  "signing_events (a @ b) = signing_events a @ signing_events b"
  by (simp add: signing_events_def)


lemma length_print_digest_loop: "length (print_digest_loop d) = 2 * length d"
  by (induction d) (simp_all add: printf_02x_def)

lemma hex_digit_lower: "hex_digit n \<in> set ''0123456789abcdef''"
proof -
  have "n mod 16 < length ''0123456789abcdef''"
    by simp
  then have "''0123456789abcdef'' ! (n mod 16) \<in> set ''0123456789abcdef''"
    by (rule nth_mem)
  then show ?thesis
    by (simp only: hex_digit_def)
qed

lemma print_digest_loop_lower:
  "ch \<in> set (print_digest_loop d) \<Longrightarrow> ch \<in> set ''0123456789abcdef''"
proof (induction d)
  case Nil
  then show ?case by simp
next
  case (Cons b d)
  from Cons.prems have "ch = hex_digit (unat b div 16) \<or> ch = hex_digit (unat b mod 16) \<or>
      ch \<in> set (print_digest_loop d)"
    by (simp add: printf_02x_def)
  then show ?case
    using hex_digit_lower [of "unat b div 16"] hex_digit_lower [of "unat b mod 16"] Cons.IH
    by blast
qed

lemmas hash_defs =
  action_switch_def flag_defs case_print_digest_def open_input_def open_rdonly_ok_def
  generate_digest_def image_of_def mapped_bytes_def print_digest_def die_if_def
  call_def upd_ctx_def upd_cms_def printf_stdout_def

lemma hash_prints:
  assumes "status s = Running" and "stdout_text s = []"
    and "infile (ctxp s) = Some i" and "files s (env_inode e i) = Some raw"
    and "env_may_open e i" and "env_pe_begin e raw"
    and "\<not> fst (env_parse_signatures e raw) < 0"
    and "env_generate_digest e (selected_digest (cms_ctx (ctxp s))) raw (opt_padding l) = Some d"
  shows "stdout_text (steps [action_switch e l (GENERATE_DIGEST OR PRINT_DIGEST), finish e l] s)
           = ''hash: '' @ print_digest_loop d @ nl"
  using assms
  by (simp add: hash_defs finish_def exit_with_def continue_simps Let_def)

text \<open>
  Claim C6, as the code has it. In a run of the hash action that reaches the switch, with
  an input image that opens, loads and parses, and a digest of 32 bytes (the length for
  \<^verbatim>\<open>sha256\<close>), the standard output is \<^verbatim>\<open>hash: \<close>, then two lower-case hexadecimal
  digits for each byte of the digest, 64 in all, then a newline.
\<close>

theorem hash_prints_digest:
  assumes "reaches_switch e l c fs"
    and "the_action l c = (GENERATE_DIGEST OR PRINT_DIGEST)"
    and "infile c = Some i" and "fs (env_inode e i) = Some raw"
    and "env_may_open e i" and "env_pe_begin e raw"
    and "\<not> fst (env_parse_signatures e raw) < 0"
    and "env_generate_digest e (Some (opt_digest_name l)) raw (opt_padding l) = Some d"
    and "length d = 32"
  shows "stdout_text (main e l c fs) = ''hash: '' @ print_digest_loop d @ nl \<and>
         length (print_digest_loop d) = 64 \<and>
         (\<forall>ch \<in> set (print_digest_loop d). ch \<in> set ''0123456789abcdef'')"
proof -
  let ?s = "before_switch e l (initial e c fs)"
  have ent: "entered e l c fs ?s"
    using assms(1) by (rule entered_before_switch)
  note f = entered_fields [OF ent]
  have sel: "selected_digest (cms_ctx (ctxp ?s)) = Some (opt_digest_name l)"
    using ent by (simp add: entered_def)
  have i: "infile (ctxp ?s) = Some i" and raw: "files ?s (env_inode e i) = Some raw"
    using f(2,6) assms(3,4) by simp_all
  have dg: "env_generate_digest e (selected_digest (cms_ctx (ctxp ?s))) raw (opt_padding l)
              = Some d"
    using assms(8) sel by simp
  have "stdout_text (main e l c fs) = ''hash: '' @ print_digest_loop d @ nl"
    using hash_prints [OF f(1) f(4) i raw assms(5) assms(6) assms(7) dg]
    by (simp add: main_reached [OF assms(1)] assms(2))
  moreover have "length (print_digest_loop d) = 64"
    using assms(9) by (simp add: length_print_digest_loop)
  moreover have "\<forall>ch \<in> set (print_digest_loop d). ch \<in> set ''0123456789abcdef''"
    using print_digest_loop_lower by blast
  ultimately show ?thesis
    by blast
qed

theorem hash_prints_digest_witness:
  "reaches_switch env_digest_count opts0 ctx_hash fs0 \<and>
   the_action opts0 ctx_hash = (GENERATE_DIGEST OR PRINT_DIGEST) \<and>
   env_generate_digest env_digest_count (Some ''sha256'') [77, 90, 0, 1] 0 =
     Some (map of_nat [0..<32]) \<and>
   length (map of_nat [0..<32] :: bytes) = 32 \<and>
   stdout_text (main env_digest_count opts0 ctx_hash fs0) =
     ''hash: 000102030405060708090a0b0c0d0e0f101112131415161718191a1b1c1d1e1f'' @ nl"
proof -
  have r: "reaches_switch env_digest_count opts0 ctx_hash fs0"
    by (simp add: reaches_switch_def model_defs continue_simps env_digest_count_def
        ctx_hash_def run_defs flag_defs)
  have a: "the_action opts0 ctx_hash = (GENERATE_DIGEST OR PRINT_DIGEST)"
    by (simp add: the_action_def ctx_hash_def run_defs flag_defs)
  have i: "infile ctx_hash = Some ''in.efi''"
    and raw: "fs0 (env_inode env_digest_count ''in.efi'') = Some [77, 90, 0, 1]"
    and o: "env_may_open env_digest_count ''in.efi''"
    and b: "env_pe_begin env_digest_count [77, 90, 0, 1]"
    and p: "\<not> fst (env_parse_signatures env_digest_count [77, 90, 0, 1]) < 0"
    and g: "env_generate_digest env_digest_count (Some (opt_digest_name opts0))
              [77, 90, 0, 1] (opt_padding opts0) = Some (map of_nat [0..<32])"
    by (simp_all add: env_digest_count_def ctx_hash_def run_defs)
  have n: "length (map of_nat [0..<32] :: bytes) = 32"
    by simp
  have v: "print_digest_loop (map of_nat [0..<32]) =
             ''000102030405060708090a0b0c0d0e0f101112131415161718191a1b1c1d1e1f''"
    by code_simp
  have g': "env_generate_digest env_digest_count (Some ''sha256'') [77, 90, 0, 1] 0 =
     Some (map of_nat [0..<32])"
    by (simp add: env_digest_count_def run_defs)
  show ?thesis
    using hash_prints_digest [OF r a i raw o b p g n] r a g' n v
    by simp
qed

text \<open>
  Claim C6 as stated fails where the run ends before the switch: the hash action with
  \<^verbatim>\<open>sha256\<close> on a valid image and a signature number that \<^verbatim>\<open>strtol\<close> refuses exits with
  status 1 and prints no digest.
\<close>

theorem hash_prints_digest_counterexample:
  "the_action opts_signum_huge ctx_hash = (GENERATE_DIGEST OR PRINT_DIGEST) \<and>
   opt_digest_name opts_signum_huge = ''sha256'' \<and>
   exit_code (main env_erange opts_signum_huge ctx_hash fs0) = Some 1 \<and>
   stdout_text (main env_erange opts_signum_huge ctx_hash fs0) = [] \<and>
   stderr_text (main env_erange opts_signum_huge ctx_hash fs0) =
     ''invalid signature number: error'' @ nl"
  by (simp add: the_action_def model_defs continue_simps opts_signum_huge_def
      env_erange_def ctx_hash_def run_defs flag_defs)

subsection \<open>The digest and the allocation of signature space\<close>









subsection \<open>The padding argument of the digest computation\<close>

lemma digest_paddings_append [simp]:
  "digest_paddings (a @ b) = digest_paddings a @ digest_paddings b"
  by (induction a rule: digest_paddings.induct) simp_all


declare trace_call_on [simp] status_call_on [simp]



lemma trace_ftruncate [simp]: "trace (ftruncate e p n t) = trace t"
  by (simp add: ftruncate_def split: option.splits)



























subsection \<open>The exit status\<close>


lemma call_on_fields [simp]:
  "stderr_text (call_on e ev p t) = stderr_text t" "rc (call_on e ev p t) = rc t"
  "stderr_text (call_out e ev t) = stderr_text t" "rc (call_out e ev t) = rc t"
  by (simp_all add: call_out_def call_on_def Let_def call_def split: option.splits)



lemma orderly_open_creat_trunc [simp]:
  "status (open_creat_trunc e p t) = status t"
  "stderr_text (open_creat_trunc e p t) = stderr_text t"
  "rc (open_creat_trunc e p t) = rc t"
  by (simp_all add: open_creat_trunc_def Let_def)

lemma ftruncate_fields [simp]:
  "status (ftruncate e p n t) = status t"
  "stderr_text (ftruncate e p n t) = stderr_text t"
  "rc (ftruncate e p n t) = rc t"
  by (simp_all add: ftruncate_def split: option.splits)






lemma could_not_find_certificate_nonempty [simp]: "could_not_find_certificate t \<noteq> []"
  by (simp add: could_not_find_certificate_def)





















lemma incompatible_flags_nonempty [simp]: "incompatible_flags a \<noteq> []"
  by (simp add: incompatible_flags_def)











end
